theory Spec2Isabelle
  imports Complex_Main "HOL-Library.AList"
begin

section \<open>JavaScript values\<close>

text \<open>
  Request bodies, stored items and response payloads are JSON documents. A number is a
  double, held as the rational it denotes; see the arithmetic below. An object is an
  association list in insertion order; property lookup takes the first binding of a key.
  The value \<open>undefined\<close> of a missing property is \<open>None\<close>.
\<close>

datatype json =
    JNull
  | JBool bool
  | JNum rat
  | JStr string
  | JArr "json list"
  | JObj "(string \<times> json) list"

type_synonym obj = "(string \<times> json) list"

text \<open>
  Property access \<open>v.k\<close>. On \<open>null\<close> the access throws; the handlers below either
  exclude \<open>null\<close> before they use \<open>field\<close>, or use it behind a validation that only
  an object passes.
\<close>

fun field :: "json \<Rightarrow> string \<Rightarrow> json option" where
  "field (JObj kvs) k = map_of kvs k"
| "field _ k = None"

text \<open>\<open>Object.entries\<close>: every key once, with the value that lookup gives.\<close>

definition entries :: "obj \<Rightarrow> obj" where
  "entries kvs = AList.clearjunk kvs"

text \<open>Assignment \<open>o[k] = v\<close>: replaces the binding of an existing key, appends a new one.\<close>

definition assign :: "obj \<Rightarrow> string \<times> json \<Rightarrow> obj" where
  "assign ob kv = AList.update (fst kv) (snd kv) ob"

text \<open>Truthiness of an optional string: \<open>undefined\<close> and the empty string are falsy.\<close>

fun truthy :: "string option \<Rightarrow> bool" where
  "truthy None = False"
| "truthy (Some s) = (s \<noteq> [])"

definition js_or :: "string option \<Rightarrow> string option \<Rightarrow> string option" where
  "js_or a b = (if truthy a then a else b)"

text \<open>Decimal rendering of an index, as a template literal prints it.\<close>

definition digit :: "nat \<Rightarrow> char" where
  "digit n = char_of (48 + n)"

fun string_of_nat :: "nat \<Rightarrow> string" where
  "string_of_nat n =
     (if n < 10 then [digit n] else string_of_nat (n div 10) @ [digit (n mod 10)])"

declare string_of_nat.simps [simp del]

text \<open>\<open>String.prototype.startsWith\<close> and \<open>String.prototype.replace\<close> with a string
  pattern (only the first occurrence is replaced).\<close>

definition startsWith :: "string \<Rightarrow> string \<Rightarrow> bool" where
  "startsWith s p = (take (length p) s = p)"

fun replace_first :: "string \<Rightarrow> string \<Rightarrow> string \<Rightarrow> string" where
  "replace_first p r [] = (if p = [] then r else [])"
| "replace_first p r (c # cs) =
     (if startsWith (c # cs) p then r @ drop (length p) (c # cs)
      else c # replace_first p r cs)"

section \<open>Arithmetic on doubles\<close>

text \<open>
  A finite double is \<open>m * 2 ^ e\<close> with \<open>\<bar>m\<bar> < 2 ^ 53\<close> and \<open>- 1074 \<le> e \<le> 971\<close>.
  JavaScript's \<open>+\<close> and \<open>*\<close> compute the exact result and round it to the nearest
  double, a tie going to the even \<open>m\<close>; a result of magnitude \<open>2 ^ 1024\<close> or more
  becomes an infinity. \<open>double q\<close> is that rounding of the exact result \<open>q\<close>, and
  \<open>None\<close> stands for a result that is not finite.
\<close>

definition pow2 :: "int \<Rightarrow> rat" where
  "pow2 k = (if 0 \<le> k then 2 ^ nat k else 1 / 2 ^ nat (- k))"

fun bit_length :: "nat \<Rightarrow> nat" where
  "bit_length n = (if n = 0 then 0 else Suc (bit_length (n div 2)))"

declare bit_length.simps [simp del]

text \<open>The integer \<open>k\<close> with \<open>2 ^ k \<le> q < 2 ^ (k + 1)\<close>, for a positive \<open>q\<close>.\<close>

definition ilog2 :: "rat \<Rightarrow> int" where
  "ilog2 q =
     (if 1 \<le> q then int (bit_length (nat \<lfloor>q\<rfloor>)) - 1
      else - int (bit_length (nat (\<lceil>1 / q\<rceil> - 1))))"

definition round_half_even :: "rat \<Rightarrow> int" where
  "round_half_even r =
     (let f = \<lfloor>r\<rfloor>; d = r - of_int f
      in if d < 1 / 2 then f else if 1 / 2 < d then f + 1 else if even f then f else f + 1)"

text \<open>
  The exponent \<open>e\<close> is the one at which the mantissa has 53 bits, or \<open>- 1074\<close> for a
  subnormal. The rounded mantissa \<open>m\<close> is at most \<open>2 ^ 53\<close> in magnitude, so the result
  reaches \<open>2 ^ 1024\<close> exactly when \<open>e\<close> exceeds 971, or is 971 with \<open>\<bar>m\<bar> = 2 ^ 53\<close>.
\<close>

definition double :: "rat \<Rightarrow> rat option" where
  "double q =
     (if q = 0 then Some 0
      else
        (let e = max (ilog2 \<bar>q\<bar> - 52) (- 1074);
             m = round_half_even (q / pow2 e)
         in if 971 < e \<or> (e = 971 \<and> 9007199254740992 \<le> \<bar>m\<bar>) then None
            else Some (of_int m * pow2 e)))"

section \<open>The world outside a handler\<close>

text \<open>
  The claims of a verified token, as \<open>jwt.sign\<close> embeds them at registration and login.
\<close>

record claims =
  userId :: string
  email :: string

text \<open>
  Everything a handler obtains from its libraries and its environment during one invocation:
  the signing secret, \<open>jsonwebtoken\<close> (\<open>jwt_verify token secret\<close> is \<open>None\<close> where the
  library throws: bad signature, expired, malformed), \<open>bcryptjs\<close>, the identifier that
  \<open>uuidv4()\<close> returns, the result of the n-th \<open>new Date().toISOString()\<close>, the format
  checks of Joi's \<open>email()\<close> and \<open>uri()\<close>, Joi's conversion of a numeric string, and
  JavaScript's \<open>ToNumber\<close> on a value that is not a number (\<open>None\<close> is \<open>NaN\<close>).
\<close>

record env =
  JWT_SECRET :: "string option"
  jwt_verify :: "string \<Rightarrow> string \<Rightarrow> claims option"
  jwt_sign :: "json \<Rightarrow> string \<Rightarrow> string"
  bcrypt_hash :: "string \<Rightarrow> string"
  bcrypt_compare :: "string \<Rightarrow> string \<Rightarrow> bool"
  uuidv4 :: string
  now :: "nat \<Rightarrow> string"
  is_email :: "string \<Rightarrow> bool"
  is_uri :: "string \<Rightarrow> bool"
  coerce_number :: "string \<Rightarrow> rat option"
  ToNumber :: "json \<Rightarrow> rat option"

text \<open>
  The request as the handler reads it. \<open>ev_body\<close> is the outcome of
  \<open>JSON.parse(event.body)\<close>: \<open>None\<close> when it throws a SyntaxError.
\<close>

record event =
  ev_headers :: "string \<rightharpoonup> string"
  ev_body :: "json option"
  pathParameters :: "string \<rightharpoonup> string"

section \<open>utils/response.js\<close>

text \<open>The \<open>body\<close> is the envelope before \<open>JSON.stringify\<close>.\<close>

record http_response =
  statusCode :: nat
  headers :: obj
  body :: json

definition allowedOrigins :: "string list" where
  "allowedOrigins =
     [''http://localhost:3000'', ''http://localhost:8080'',
      ''https://your-frontend-domain.com'', ''https://your-production-domain.com'']"

definition getCorsHeaders :: "string option \<Rightarrow> obj" where
  "getCorsHeaders origin =
     (let corsOrigin =
        (case origin of
           Some orig \<Rightarrow> if orig \<in> set allowedOrigins then orig else ''http://localhost:3000''
         | None \<Rightarrow> ''http://localhost:3000'')
      in [(''Content-Type'', JStr ''application/json''),
          (''Access-Control-Allow-Origin'', JStr corsOrigin),
          (''Access-Control-Allow-Credentials'', JBool True),
          (''Access-Control-Allow-Headers'',
             JStr ''Content-Type,X-Amz-Date,Authorization,X-Api-Key,X-Amz-Security-Token''),
          (''Access-Control-Allow-Methods'', JStr ''GET,POST,PUT,DELETE,OPTIONS''),
          (''X-Content-Type-Options'', JStr ''nosniff''),
          (''X-Frame-Options'', JStr ''DENY''),
          (''X-XSS-Protection'', JStr ''1; mode=block''),
          (''Strict-Transport-Security'', JStr ''max-age=31536000; includeSubDomains'')])"

text \<open>The third argument is optional in the source; a handler that omits it passes \<open>None\<close>.\<close>

definition response :: "nat \<Rightarrow> json \<Rightarrow> event option \<Rightarrow> http_response" where
  "response code payload ev =
     (let origin =
        (case ev of
           None \<Rightarrow> None
         | Some e \<Rightarrow> js_or (ev_headers e ''origin'') (ev_headers e ''Origin''))
      in \<lparr>statusCode = code, headers = getCorsHeaders origin, body = payload\<rparr>)"

definition success :: "json \<Rightarrow> event option \<Rightarrow> http_response" where
  "success d ev = response 200 (JObj [(''success'', JBool True), (''data'', d)]) ev"

definition created :: "json \<Rightarrow> event option \<Rightarrow> http_response" where
  "created d ev = response 201 (JObj [(''success'', JBool True), (''data'', d)]) ev"

definition failure :: "nat \<Rightarrow> string \<Rightarrow> event option \<Rightarrow> http_response" where
  "failure code message ev =
     response code (JObj [(''success'', JBool False), (''error'', JStr message)]) ev"

definition badRequest :: "string \<Rightarrow> event option \<Rightarrow> http_response" where
  "badRequest = failure 400"

definition unauthorized :: "string \<Rightarrow> event option \<Rightarrow> http_response" where
  "unauthorized = failure 401"

definition notFound :: "string \<Rightarrow> event option \<Rightarrow> http_response" where
  "notFound = failure 404"

definition serverError :: "string \<Rightarrow> event option \<Rightarrow> http_response" where
  "serverError = failure 500"

section \<open>Joi schemas\<close>

text \<open>
  A schema is a function from the path of a value and the value (\<open>None\<close> for
  \<open>undefined\<close>) to the message of the first error, as \<open>validate\<close> reports it in
  \<open>error.details[0].message\<close> under the default \<open>abortEarly\<close>; \<open>None\<close> means valid.
  Joi's defaults are in force: keys that the schema does not name are not allowed, an
  empty string is not a string, a numeric string counts as its number.
\<close>

type_synonym schema = "string \<Rightarrow> json option \<Rightarrow> string option"

type_synonym 'a rule = "('a \<Rightarrow> bool) \<times> string"

definition dq :: char where
  "dq = CHR 0x22"

definition err :: "string \<Rightarrow> string \<Rightarrow> string option" where
  "err path what = Some (dq # (if path = [] then ''value'' else path) @ dq # '' '' @ what)"

definition child :: "string \<Rightarrow> string \<Rightarrow> string" where
  "child path k = (if path = [] then k else path @ ''.'' @ k)"

definition item_path :: "string \<Rightarrow> nat \<Rightarrow> string" where
  "item_path path i = path @ ''['' @ string_of_nat i @ '']''"

fun first_error :: "string option list \<Rightarrow> string option" where
  "first_error [] = None"
| "first_error (Some e # rest) = Some e"
| "first_error (None # rest) = first_error rest"

definition check_rules :: "'a rule list \<Rightarrow> string \<Rightarrow> 'a \<Rightarrow> string option" where
  "check_rules rules path x =
     (case find (\<lambda>r. \<not> fst r x) rules of Some r \<Rightarrow> err path (snd r) | None \<Rightarrow> None)"

definition presence :: "bool \<Rightarrow> string \<Rightarrow> string option" where
  "presence required path = (if required then err path ''is required'' else None)"

definition string_email :: "env \<Rightarrow> string rule" where
  "string_email env = (is_email env, ''must be a valid email'')"

definition string_uri :: "env \<Rightarrow> string rule" where
  "string_uri env = (is_uri env, ''must be a valid uri'')"

definition string_min :: "nat \<Rightarrow> string rule" where
  "string_min n =
     (\<lambda>s. n \<le> length s, ''length must be at least '' @ string_of_nat n @ '' characters long'')"

definition number_integer :: "rat rule" where
  "number_integer = (\<lambda>q. of_int \<lfloor>q\<rfloor> = q, ''must be an integer'')"

definition number_min :: "nat \<Rightarrow> rat rule" where
  "number_min n = (\<lambda>q. of_nat n \<le> q, ''must be greater than or equal to '' @ string_of_nat n)"

definition number_positive :: "rat rule" where
  "number_positive = (\<lambda>q. 0 < q, ''must be a positive number'')"

definition joi_string :: "string rule list \<Rightarrow> bool \<Rightarrow> schema" where
  "joi_string rules required path v =
     (case v of
        None \<Rightarrow> presence required path
      | Some (JStr s) \<Rightarrow>
          if s = [] then err path ''is not allowed to be empty'' else check_rules rules path s
      | Some _ \<Rightarrow> err path ''must be a string'')"

definition check_number :: "rat rule list \<Rightarrow> string \<Rightarrow> rat \<Rightarrow> string option" where
  "check_number rules path q =
     (if 9007199254740991 < \<bar>q\<bar> then err path ''must be a safe number''
      else check_rules rules path q)"

definition joi_number :: "env \<Rightarrow> rat rule list \<Rightarrow> bool \<Rightarrow> schema" where
  "joi_number env rules required path v =
     (case v of
        None \<Rightarrow> presence required path
      | Some (JNum q) \<Rightarrow> check_number rules path q
      | Some (JStr s) \<Rightarrow>
          (case coerce_number env s of
             Some q \<Rightarrow> check_number rules path q
           | None \<Rightarrow> err path ''must be a number'')
      | Some _ \<Rightarrow> err path ''must be a number'')"

definition joi_object :: "(string \<times> schema) list \<Rightarrow> bool \<Rightarrow> schema" where
  "joi_object keys required path v =
     (case v of
        None \<Rightarrow> presence required path
      | Some (JObj kvs) \<Rightarrow>
          (case first_error (map (\<lambda>(k, sch). sch (child path k) (map_of kvs k)) keys) of
             Some e \<Rightarrow> Some e
           | None \<Rightarrow>
               (case filter (\<lambda>k. k \<notin> set (map fst keys)) (map fst (entries kvs)) of
                  [] \<Rightarrow> None
                | k # _ \<Rightarrow> err (child path k) ''is not allowed''))
      | Some _ \<Rightarrow> err path ''must be of type object'')"

definition joi_array :: "schema \<Rightarrow> nat \<Rightarrow> bool \<Rightarrow> schema" where
  "joi_array item n required path v =
     (case v of
        None \<Rightarrow> presence required path
      | Some (JArr xs) \<Rightarrow>
          (case first_error (map (\<lambda>(i, x). item (item_path path i) (Some x)) (enumerate 0 xs)) of
             Some e \<Rightarrow> Some e
           | None \<Rightarrow>
               if length xs < n
               then err path (''must contain at least '' @ string_of_nat n @ '' items'')
               else None)
      | Some _ \<Rightarrow> err path ''must be an array'')"

definition validate :: "schema \<Rightarrow> json \<Rightarrow> string option" where
  "validate sch v = sch [] (Some v)"

section \<open>services/dynamodb.js\<close>

text \<open>
  The table maps the key (id, type) to the stored item. \<open>None\<close> is a call that throws.
  Two refusals are modelled. DynamoDB refuses a key whose partition value is empty or
  longer than 2048 bytes, or whose sort value is empty or longer than 1024 bytes; an item
  is only ever stored under a key that was accepted, so the refusal is that of a key
  without an item. The document client refuses to marshal a number beyond the safe
  integers. Throttling and network failures are outside the model.
\<close>

type_synonym table = "string \<times> string \<rightharpoonup> obj"

definition key_accepted :: "string \<times> string \<Rightarrow> bool" where
  "key_accepted key \<longleftrightarrow>
     fst key \<noteq> [] \<and> length (fst key) \<le> 2048 \<and> snd key \<noteq> [] \<and> length (snd key) \<le> 1024"

fun storable :: "json \<Rightarrow> bool" where
  "storable (JNum q) = (\<bar>q\<bar> \<le> 9007199254740991)"
| "storable (JArr xs) = (\<forall>x \<in> set xs. storable x)"
| "storable (JObj kvs) = (\<forall>kv \<in> set kvs. storable (snd kv))"
| "storable _ = True"

definition put :: "obj \<Rightarrow> table \<Rightarrow> table option" where
  "put item t =
     (case (map_of item ''id'', map_of item ''type'') of
        (Some (JStr i), Some (JStr ty)) \<Rightarrow>
          if (t (i, ty) \<noteq> None \<or> key_accepted (i, ty)) \<and> storable (JObj item)
          then Some (t((i, ty) \<mapsto> item))
          else None
      | _ \<Rightarrow> None)"

text \<open>\<open>Some None\<close> is the \<open>undefined\<close> that \<open>get\<close> returns when there is no item.\<close>

definition get :: "string \<times> string \<Rightarrow> table \<Rightarrow> obj option option" where
  "get key t =
     (case t key of
        Some item \<Rightarrow> Some (Some item)
      | None \<Rightarrow> if key_accepted key then Some None else None)"

definition remove :: "string \<times> string \<Rightarrow> table \<Rightarrow> table option" where
  "remove key t =
     (if t key \<noteq> None \<or> key_accepted key then Some (t(key := None)) else None)"

text \<open>
  An update expression \<open>SET n1 = v1, n2 = v2, ...\<close> is the list of its clauses, each the
  pair of a name placeholder and a value placeholder. DynamoDB resolves the placeholders,
  refuses a clause on a key attribute and two clauses on one attribute, creates the item
  when the key is new, and with \<open>ReturnValues: 'ALL_NEW'\<close> returns the item after the
  update. The document client marshals the attribute values before the call.
\<close>

definition resolve :: "(string \<times> string) list \<Rightarrow> obj \<Rightarrow> string \<times> string \<Rightarrow> (string \<times> json) option" where
  "resolve names vals clause =
     (case (map_of names (fst clause), map_of vals (snd clause)) of
        (Some a, Some x) \<Rightarrow> Some (a, x)
      | _ \<Rightarrow> None)"

definition update ::
  "string \<times> string \<Rightarrow> (string \<times> string) list \<Rightarrow> obj \<Rightarrow> (string \<times> string) list \<Rightarrow> table
     \<Rightarrow> (obj \<times> table) option" where
  "update key updateExpression expressionAttributeValues expressionAttributeNames t =
     (case those (map (resolve expressionAttributeNames expressionAttributeValues)
                   updateExpression) of
        None \<Rightarrow> None
      | Some sets \<Rightarrow>
          if \<not> storable (JObj expressionAttributeValues)
             \<or> (t key = None \<and> \<not> key_accepted key)
             \<or> ''id'' \<in> set (map fst sets) \<or> ''type'' \<in> set (map fst sets)
             \<or> \<not> distinct (map fst sets)
          then None
          else
            (let old = (case t key of
                          Some item \<Rightarrow> item
                        | None \<Rightarrow> [(''id'', JStr (fst key)), (''type'', JStr (snd key))]);
                 new = foldl assign old sets
             in Some (new, t(key \<mapsto> new))))"


section \<open>utils/auth.js\<close>

text \<open>\<open>verifyToken\<close> returns \<open>null\<close> when the secret is not configured or the library throws.\<close>

definition verifyToken :: "env \<Rightarrow> string \<Rightarrow> claims option" where
  "verifyToken env token =
     (case JWT_SECRET env of
        None \<Rightarrow> None
      | Some secret \<Rightarrow> if secret = [] then None else jwt_verify env token secret)"

text \<open>The result \<open>{isValid, response | user}\<close> is a sum: the response to send, or the claims.\<close>

definition authenticateToken :: "env \<Rightarrow> event \<Rightarrow> http_response + claims" where
  "authenticateToken env event =
     (case js_or (ev_headers event ''Authorization'') (ev_headers event ''authorization'') of
        None \<Rightarrow> Inl (unauthorized ''Authorization header required'' None)
      | Some authHeader \<Rightarrow>
          if authHeader = [] then Inl (unauthorized ''Authorization header required'' None)
          else if \<not> startsWith authHeader ''Bearer ''
          then Inl (unauthorized ''Invalid authorization format. Use: Bearer <token>'' None)
          else
            (case verifyToken env (drop 7 authHeader) of
               None \<Rightarrow> Inl (unauthorized ''Invalid or expired token'' None)
             | Some decoded \<Rightarrow> Inr decoded))"

section \<open>handlers/orders.js\<close>

definition orderItemSchema :: "env \<Rightarrow> schema" where
  "orderItemSchema env =
     joi_object
       [(''productId'', joi_string [] True),
        (''quantity'', joi_number env [number_integer, number_min 1] True),
        (''price'', joi_number env [number_positive] True)]
       False"

definition orderSchema :: "env \<Rightarrow> schema" where
  "orderSchema env =
     joi_object
       [(''items'', joi_array (orderItemSchema env) 1 True),
        (''shippingAddress'',
           joi_object
             [(''street'', joi_string [] True),
              (''city'', joi_string [] True),
              (''state'', joi_string [] True),
              (''zipCode'', joi_string [] True),
              (''country'', joi_string [] True)]
             True)]
       False"

text \<open>
  The handlers of this file verify the token themselves; \<open>jwt.verify\<close> throws on a
  missing secret, and the \<open>catch\<close> turns every throw into \<open>null\<close>.
\<close>

definition orders_verifyToken :: "env \<Rightarrow> string \<Rightarrow> claims option" where
  "orders_verifyToken env token =
     (case JWT_SECRET env of
        None \<Rightarrow> None
      | Some secret \<Rightarrow> if secret = [] then None else jwt_verify env token secret)"

text \<open>The operand of \<open>*\<close> as a number; \<open>None\<close> is \<open>NaN\<close>.\<close>

definition js_number :: "env \<Rightarrow> json option \<Rightarrow> rat option" where
  "js_number env v =
     (case v of
        None \<Rightarrow> None
      | Some (JNum q) \<Rightarrow> Some q
      | Some x \<Rightarrow> ToNumber env x)"

text \<open>
  \<open>items.reduce((sum, item) => sum + (item.price * item.quantity), 0)\<close>: the product
  is rounded, then the sum. A \<open>NaN\<close> or an infinity stays one to the end.
\<close>

definition totalAmount :: "env \<Rightarrow> json list \<Rightarrow> rat option" where
  "totalAmount env items =
     foldl
       (\<lambda>sum item.
          case (sum, js_number env (field item ''price''), js_number env (field item ''quantity'')) of
            (Some s, Some p, Some q) \<Rightarrow>
              (case double (p * q) of
                 None \<Rightarrow> None
               | Some product \<Rightarrow> double (s + product))
          | _ \<Rightarrow> None)
       (Some 0) items"

text \<open>
  Every path that throws ends in the \<open>catch\<close> and answers 500 with the table as it is
  at that moment: a body that does not parse, and, behind a passed validation, \<open>reduce\<close>
  on something that is not an array and \<open>put\<close> of an item with an attribute that is
  \<open>undefined\<close>, not finite or beyond the safe integers.
\<close>

definition orders_create :: "env \<Rightarrow> event \<Rightarrow> table \<Rightarrow> http_response \<times> table" where
  "orders_create env event t =
     (case js_or (ev_headers event ''Authorization'') (ev_headers event ''authorization'') of
        None \<Rightarrow> (unauthorized ''Authorization header required'' None, t)
      | Some authHeader \<Rightarrow>
          if authHeader = [] then (unauthorized ''Authorization header required'' None, t)
          else
            (case orders_verifyToken env (replace_first ''Bearer '' [] authHeader) of
               None \<Rightarrow> (unauthorized ''Invalid token'' None, t)
             | Some decoded \<Rightarrow>
                 (case ev_body event of
                    None \<Rightarrow> (serverError ''Internal server error'' None, t)
                  | Some orderData \<Rightarrow>
                      (case validate (orderSchema env) orderData of
                         Some message \<Rightarrow> (badRequest message None, t)
                       | None \<Rightarrow>
                           (case (field orderData ''items'', field orderData ''shippingAddress'') of
                              (Some (JArr items), Some shippingAddress) \<Rightarrow>
                                (case totalAmount env items of
                                   None \<Rightarrow> (serverError ''Internal server error'' None, t)
                                 | Some amount \<Rightarrow>
                                     (let order =
                                        [(''id'', JStr (uuidv4 env)),
                                         (''type'', JStr ''order''),
                                         (''userId'', JStr (userId decoded)),
                                         (''userEmail'', JStr (email decoded)),
                                         (''items'', JArr items),
                                         (''shippingAddress'', shippingAddress),
                                         (''totalAmount'', JNum amount),
                                         (''status'', JStr ''pending''),
                                         (''createdAt'', JStr (now env 0)),
                                         (''updatedAt'', JStr (now env 1))]
                                      in case put order t of
                                           None \<Rightarrow> (serverError ''Internal server error'' None, t)
                                         | Some t' \<Rightarrow> (created (JObj order) None, t')))
                            | _ \<Rightarrow> (serverError ''Internal server error'' None, t))))))"

definition orders_getById :: "env \<Rightarrow> event \<Rightarrow> table \<Rightarrow> http_response \<times> table" where
  "orders_getById env event t =
     (case js_or (ev_headers event ''Authorization'') (ev_headers event ''authorization'') of
        None \<Rightarrow> (unauthorized ''Authorization header required'' None, t)
      | Some authHeader \<Rightarrow>
          if authHeader = [] then (unauthorized ''Authorization header required'' None, t)
          else
            (case orders_verifyToken env (replace_first ''Bearer '' [] authHeader) of
               None \<Rightarrow> (unauthorized ''Invalid token'' None, t)
             | Some decoded \<Rightarrow>
                 (case pathParameters event ''id'' of
                    None \<Rightarrow> (serverError ''Internal server error'' None, t)
                  | Some id' \<Rightarrow>
                      (case get (id', ''order'') t of
                         None \<Rightarrow> (serverError ''Internal server error'' None, t)
                       | Some None \<Rightarrow> (notFound ''Order not found'' None, t)
                       | Some (Some order) \<Rightarrow>
                           if map_of order ''userId'' \<noteq> Some (JStr (userId decoded))
                           then (unauthorized ''Access denied'' None, t)
                           else (success (JObj order) None, t)))))"

section \<open>handlers/products.js\<close>

definition productSchema :: "env \<Rightarrow> schema" where
  "productSchema env =
     joi_object
       [(''name'', joi_string [] True),
        (''description'', joi_string [] False),
        (''price'', joi_number env [number_positive] True),
        (''category'', joi_string [] True),
        (''stock'', joi_number env [number_integer, number_min 0] True),
        (''imageUrl'', joi_string [string_uri env] False)]
       False"

definition updateProductSchema :: "env \<Rightarrow> schema" where
  "updateProductSchema env =
     joi_object
       [(''name'', joi_string [] False),
        (''description'', joi_string [] False),
        (''price'', joi_number env [number_positive] False),
        (''category'', joi_string [] False),
        (''stock'', joi_number env [number_integer, number_min 0] False),
        (''imageUrl'', joi_string [string_uri env] False)]
       False"

text \<open>
  \<open>{id, type, ...productData, createdAt, updatedAt}\<close>: a later key overwrites an earlier
  one. The last branch is behind a passed validation, which only an object passes.
\<close>

definition products_create :: "env \<Rightarrow> event \<Rightarrow> table \<Rightarrow> http_response \<times> table" where
  "products_create env event t =
     (case authenticateToken env event of
        Inl resp \<Rightarrow> (resp, t)
      | Inr user \<Rightarrow>
          (case ev_body event of
             None \<Rightarrow> (serverError ''Internal server error'' None, t)
           | Some productData \<Rightarrow>
               (case validate (productSchema env) productData of
                  Some message \<Rightarrow> (badRequest message None, t)
                | None \<Rightarrow>
                    (case productData of
                       JObj kvs \<Rightarrow>
                         (let product =
                            foldl assign
                              (foldl assign
                                 [(''id'', JStr (uuidv4 env)), (''type'', JStr ''product'')]
                                 (entries kvs))
                              [(''createdAt'', JStr (now env 0)), (''updatedAt'', JStr (now env 1))]
                          in case put product t of
                               None \<Rightarrow> (serverError ''Internal server error'' None, t)
                             | Some t' \<Rightarrow> (created (JObj product) None, t'))
                     | _ \<Rightarrow> (serverError ''Internal server error'' None, t)))))"

text \<open>
  The update-expression builder: the key at position \<open>index\<close> of \<open>Object.keys(updateData)\<close>
  gets the placeholders \<open>#attr<index>\<close> and \<open>:val<index>\<close>, and \<open>updatedAt\<close> is stamped
  last. The two placeholder objects are written as the lists of their assignments.
\<close>

definition updateExpressions :: "obj \<Rightarrow> (string \<times> string) list" where
  "updateExpressions updateData =
     map (\<lambda>(index, key). (''#attr'' @ string_of_nat index, '':val'' @ string_of_nat index))
       (enumerate 0 (map fst (entries updateData)))
     @ [(''#updatedAt'', '':updatedAt'')]"

definition expressionAttributeNames :: "obj \<Rightarrow> (string \<times> string) list" where
  "expressionAttributeNames updateData =
     map (\<lambda>(index, key). (''#attr'' @ string_of_nat index, key))
       (enumerate 0 (map fst (entries updateData)))
     @ [(''#updatedAt'', ''updatedAt'')]"

definition expressionAttributeValues :: "obj \<Rightarrow> string \<Rightarrow> obj" where
  "expressionAttributeValues updateData stamp =
     map (\<lambda>(index, kv). ('':val'' @ string_of_nat index, snd kv))
       (enumerate 0 (entries updateData))
     @ [('':updatedAt'', JStr stamp)]"

definition products_update :: "env \<Rightarrow> event \<Rightarrow> table \<Rightarrow> http_response \<times> table" where
  "products_update env event t =
     (case authenticateToken env event of
        Inl resp \<Rightarrow> (resp, t)
      | Inr user \<Rightarrow>
          (case ev_body event of
             None \<Rightarrow> (serverError ''Internal server error'' None, t)
           | Some updateData \<Rightarrow>
               (case validate (updateProductSchema env) updateData of
                  Some message \<Rightarrow> (badRequest message None, t)
                | None \<Rightarrow>
                    (case pathParameters event ''id'' of
                       None \<Rightarrow> (serverError ''Internal server error'' None, t)
                     | Some id' \<Rightarrow>
                         (case get (id', ''product'') t of
                            None \<Rightarrow> (serverError ''Internal server error'' None, t)
                          | Some None \<Rightarrow> (notFound ''Product not found'' None, t)
                          | Some (Some existingProduct) \<Rightarrow>
                              (case updateData of
                                 JObj kvs \<Rightarrow>
                                   (case update (id', ''product'') (updateExpressions kvs)
                                           (expressionAttributeValues kvs (now env 0))
                                           (expressionAttributeNames kvs) t of
                                      None \<Rightarrow> (serverError ''Internal server error'' None, t)
                                    | Some (updatedProduct, t') \<Rightarrow>
                                        (success (JObj updatedProduct) None, t'))
                               | _ \<Rightarrow> (serverError ''Internal server error'' None, t)))))))"

definition products_delete :: "env \<Rightarrow> event \<Rightarrow> table \<Rightarrow> http_response \<times> table" where
  "products_delete env event t =
     (case authenticateToken env event of
        Inl resp \<Rightarrow> (resp, t)
      | Inr user \<Rightarrow>
          (case pathParameters event ''id'' of
             None \<Rightarrow> (serverError ''Internal server error'' None, t)
           | Some id' \<Rightarrow>
               (case get (id', ''product'') t of
                  None \<Rightarrow> (serverError ''Internal server error'' None, t)
                | Some None \<Rightarrow> (notFound ''Product not found'' None, t)
                | Some (Some existingProduct) \<Rightarrow>
                    (case remove (id', ''product'') t of
                       None \<Rightarrow> (serverError ''Internal server error'' None, t)
                     | Some t' \<Rightarrow>
                         (success (JObj [(''message'', JStr ''Product deleted successfully'')])
                            None,
                          t')))))"


section \<open>handlers/auth.js\<close>

text \<open>
  An object literal whose properties may be \<open>undefined\<close>: Joi, \<open>jwt.sign\<close> and
  \<open>JSON.stringify\<close> all treat such a property as absent.
\<close>

definition literal :: "(string \<times> json option) list \<Rightarrow> obj" where
  "literal props = List.map_filter (\<lambda>(k, v). map_option (Pair k) v) props"

definition registerSchema :: "env \<Rightarrow> schema" where
  "registerSchema env =
     joi_object
       [(''email'', joi_string [string_email env] True),
        (''password'', joi_string [string_min 6] True),
        (''name'', joi_string [] True)]
       False"

definition loginSchema :: "env \<Rightarrow> schema" where
  "loginSchema env =
     joi_object
       [(''email'', joi_string [string_email env] True),
        (''password'', joi_string [] True)]
       False"

text \<open>
  Destructuring \<open>null\<close> throws; destructuring any other value gives \<open>undefined\<close> for a
  property it lacks. \<open>jwt.sign\<close> throws without a secret, after the user is stored.
  The branch for fields that are not strings is behind a passed validation.
\<close>

definition register :: "env \<Rightarrow> event \<Rightarrow> table \<Rightarrow> http_response \<times> table" where
  "register env event t =
     (case ev_body event of
        None \<Rightarrow> (serverError ''Internal server error'' None, t)
      | Some JNull \<Rightarrow> (serverError ''Internal server error'' None, t)
      | Some data \<Rightarrow>
          (case validate (registerSchema env)
                  (JObj (literal [(''email'', field data ''email''),
                                  (''password'', field data ''password''),
                                  (''name'', field data ''name'')])) of
             Some message \<Rightarrow> (badRequest message None, t)
           | None \<Rightarrow>
               (case (field data ''email'', field data ''password'', field data ''name'') of
                  (Some (JStr email'), Some (JStr password), Some (JStr name)) \<Rightarrow>
                    (case get (email', ''user'') t of
                       None \<Rightarrow> (serverError ''Internal server error'' None, t)
                     | Some (Some existingUser) \<Rightarrow> (badRequest ''User already exists'' None, t)
                     | Some None \<Rightarrow>
                         (let hashedPassword = bcrypt_hash env password;
                              userId' = uuidv4 env;
                              user =
                                [(''id'', JStr email'),
                                 (''type'', JStr ''user''),
                                 (''userId'', JStr userId'),
                                 (''name'', JStr name),
                                 (''password'', JStr hashedPassword),
                                 (''createdAt'', JStr (now env 0))]
                          in case put user t of
                               None \<Rightarrow> (serverError ''Internal server error'' None, t)
                             | Some t' \<Rightarrow>
                                 (case JWT_SECRET env of
                                    None \<Rightarrow> (serverError ''Internal server error'' None, t')
                                  | Some secret \<Rightarrow>
                                      if secret = []
                                      then (serverError ''Internal server error'' None, t')
                                      else
                                        (let token =
                                           jwt_sign env
                                             (JObj [(''userId'', JStr userId'),
                                                    (''email'', JStr email')])
                                             secret
                                         in (created
                                               (JObj
                                                  [(''token'', JStr token),
                                                   (''user'',
                                                      JObj [(''userId'', JStr userId'),
                                                            (''email'', JStr email'),
                                                            (''name'', JStr name)])])
                                               None,
                                             t')))))
                | _ \<Rightarrow> (serverError ''Internal server error'' None, t))))"

text \<open>
  The two versions of \<open>login\<close> differ in one point: the later one hands the event to
  the response builder (and logs through the sanitising logger, which is no part of the
  response). The parameter \<open>ev\<close> is that argument: \<open>None\<close> in the first version,
  the event in the second. \<open>bcrypt.compare\<close> throws on a hash that is not a string.
\<close>

definition login_with :: "event option \<Rightarrow> env \<Rightarrow> event \<Rightarrow> table \<Rightarrow> http_response \<times> table" where
  "login_with ev env event t =
     (case ev_body event of
        None \<Rightarrow> (serverError ''Internal server error'' ev, t)
      | Some JNull \<Rightarrow> (serverError ''Internal server error'' ev, t)
      | Some data \<Rightarrow>
          (case validate (loginSchema env)
                  (JObj (literal [(''email'', field data ''email''),
                                  (''password'', field data ''password'')])) of
             Some message \<Rightarrow> (badRequest message ev, t)
           | None \<Rightarrow>
               (case (field data ''email'', field data ''password'') of
                  (Some (JStr email'), Some (JStr password)) \<Rightarrow>
                    (case get (email', ''user'') t of
                       None \<Rightarrow> (serverError ''Internal server error'' ev, t)
                     | Some None \<Rightarrow> (unauthorized ''Invalid credentials'' ev, t)
                     | Some (Some user) \<Rightarrow>
                         (case map_of user ''password'' of
                            Some (JStr hash) \<Rightarrow>
                              if \<not> bcrypt_compare env password hash
                              then (unauthorized ''Invalid credentials'' ev, t)
                              else
                                (case JWT_SECRET env of
                                   None \<Rightarrow> (serverError ''Internal server error'' ev, t)
                                 | Some secret \<Rightarrow>
                                     if secret = []
                                     then (serverError ''Internal server error'' ev, t)
                                     else
                                       (let token =
                                          jwt_sign env
                                            (JObj (literal [(''userId'', map_of user ''userId''),
                                                            (''email'', map_of user ''id'')]))
                                            secret
                                        in (success
                                              (JObj
                                                 [(''token'', JStr token),
                                                  (''user'',
                                                     JObj (literal
                                                       [(''userId'', map_of user ''userId''),
                                                        (''email'', map_of user ''id''),
                                                        (''name'', map_of user ''name'')]))])
                                              ev,
                                            t)))
                          | _ \<Rightarrow> (serverError ''Internal server error'' ev, t)))
                | _ \<Rightarrow> (serverError ''Internal server error'' ev, t))))"

definition login :: "env \<Rightarrow> event \<Rightarrow> table \<Rightarrow> http_response \<times> table" where
  "login env event t = login_with None env event t"

definition login_hardened :: "env \<Rightarrow> event \<Rightarrow> table \<Rightarrow> http_response \<times> table" where
  "login_hardened env event t = login_with (Some event) env event t"


section \<open>Notions of the statements\<close>

text \<open>
  The claims that the handlers of orders.js act on: the result of their first lines,
  \<open>None\<close> where they answer 401.
\<close>

definition orders_caller :: "env \<Rightarrow> event \<Rightarrow> claims option" where
  "orders_caller env event =
     (case js_or (ev_headers event ''Authorization'') (ev_headers event ''authorization'') of
        None \<Rightarrow> None
      | Some authHeader \<Rightarrow>
          if authHeader = [] then None
          else orders_verifyToken env (replace_first ''Bearer '' [] authHeader))"

text \<open>
  The email and the password of a login request that passes \<open>loginSchema\<close>.
\<close>

definition credentials :: "env \<Rightarrow> event \<Rightarrow> (string \<times> string) option" where
  "credentials env event =
     (case ev_body event of
        None \<Rightarrow> None
      | Some data \<Rightarrow>
          (case (field data ''email'', field data ''password'') of
             (Some (JStr m), Some (JStr p)) \<Rightarrow>
               if validate (loginSchema env)
                    (JObj (literal [(''email'', field data ''email''),
                                    (''password'', field data ''password'')])) = None
               then Some (m, p) else None
           | _ \<Rightarrow> None))"

text \<open>
  An error response with this status and message that leaves the table as it was.
\<close>

definition answers :: "http_response \<times> table \<Rightarrow> nat \<Rightarrow> string \<Rightarrow> table \<Rightarrow> bool" where
  "answers r code message t \<longleftrightarrow>
     statusCode (fst r) = code \<and>
     body (fst r) = JObj [(''success'', JBool False), (''error'', JStr message)] \<and>
     snd r = t"

text \<open>
  An item of an order whose price and quantity are the numbers of the pair.
\<close>

definition priced :: "json \<Rightarrow> rat \<times> rat \<Rightarrow> bool" where
  "priced item pq \<longleftrightarrow>
     field item ''price'' = Some (JNum (fst pq)) \<and>
     field item ''quantity'' = Some (JNum (snd pq))"

text \<open>
  The sum of price times quantity over the pairs, taken from 0 and from left to right
  in the arithmetic of doubles: each product is rounded, then each partial sum.
  \<open>None\<close> is a result that is not finite.
\<close>

definition double_sum :: "(rat \<times> rat) list \<Rightarrow> rat option" where
  "double_sum pqs =
     foldl
       (\<lambda>sum pq.
          case sum of
            None \<Rightarrow> None
          | Some s \<Rightarrow>
              (case double (fst pq * snd pq) of
                 None \<Rightarrow> None
               | Some product \<Rightarrow> double (s + product)))
       (Some 0) pqs"

text \<open>
  Starting from the partial sum \<open>s\<close>, no product and no partial sum of the pairs is
  changed by the rounding.
\<close>

fun exact_from :: "rat \<Rightarrow> (rat \<times> rat) list \<Rightarrow> bool" where
  "exact_from s [] = True"
| "exact_from s (pq # pqs) =
     (double (fst pq * snd pq) = Some (fst pq * snd pq) \<and>
      double (s + fst pq * snd pq) = Some (s + fst pq * snd pq) \<and>
      exact_from (s + fst pq * snd pq) pqs)"

text \<open>The field \<open>k\<close> of the item stored under a key.\<close>

definition stored_field :: "table \<Rightarrow> string \<times> string \<Rightarrow> string \<Rightarrow> json option" where
  "stored_field t key k = (case t key of None \<Rightarrow> None | Some item \<Rightarrow> map_of item k)"

section \<open>Example requests\<close>

text \<open>
  An environment for the examples: two tokens are valid under the configured secret,
  one for user A and one for user B. The examples send numbers as JSON numbers, so the
  two conversions to a number are never consulted and answer \<open>None\<close>.
\<close>

definition alice :: claims where
  "alice = \<lparr>userId = ''user-A'', email = ''a@x.com''\<rparr>"

definition bob :: claims where
  "bob = \<lparr>userId = ''user-B'', email = ''b@x.com''\<rparr>"

definition example_env :: env where
  "example_env =
     \<lparr>JWT_SECRET = Some ''secret'',
      jwt_verify = (\<lambda>token secret.
         if secret \<noteq> ''secret'' then None
         else if token = ''token-A'' then Some alice
         else if token = ''token-B'' then Some bob
         else None),
      jwt_sign = (\<lambda>payload secret. ''signed''),
      bcrypt_hash = (\<lambda>password. ''hash:'' @ password),
      bcrypt_compare = (\<lambda>password hash. hash = ''hash:'' @ password),
      uuidv4 = ''uuid-1'',
      now = (\<lambda>n. ''2024-01-01T00:00:00.000Z''),
      is_email = (\<lambda>s. CHR ''@'' \<in> set s),
      is_uri = (\<lambda>s. startsWith s ''https://''),
      coerce_number = (\<lambda>s. None),
      ToNumber = (\<lambda>v. None)\<rparr>"

definition request :: "string \<Rightarrow> string \<Rightarrow> json option \<Rightarrow> event" where
  "request authHeader i payload =
     \<lparr>ev_headers = [''Authorization'' \<mapsto> authHeader],
      ev_body = payload,
      pathParameters = [''id'' \<mapsto> i]\<rparr>"

definition body_request :: "json \<Rightarrow> event" where
  "body_request data =
     \<lparr>ev_headers = Map.empty, ev_body = Some data, pathParameters = Map.empty\<rparr>"

definition login_request :: "string \<Rightarrow> string \<Rightarrow> event" where
  "login_request m p =
     \<lparr>ev_headers = Map.empty,
      ev_body = Some (JObj [(''email'', JStr m), (''password'', JStr p)]),
      pathParameters = Map.empty\<rparr>"

definition unparseable :: event where
  "unparseable = \<lparr>ev_headers = Map.empty, ev_body = None, pathParameters = Map.empty\<rparr>"

definition order_payload :: json where
  "order_payload =
     JObj [(''items'',
              JArr [JObj [(''productId'', JStr ''p1''), (''quantity'', JNum 2),
                          (''price'', JNum (3 / 2))],
                    JObj [(''productId'', JStr ''p2''), (''quantity'', JNum 1),
                          (''price'', JNum 10)]]),
           (''shippingAddress'',
              JObj [(''street'', JStr ''1 Main St''), (''city'', JStr ''Springfield''),
                    (''state'', JStr ''IL''), (''zipCode'', JStr ''62701''),
                    (''country'', JStr ''US'')])]"

text \<open>The double nearest to 0.1, which is what \<open>JSON.parse\<close> makes of \<open>0.1\<close>.\<close>

definition tenth :: rat where
  "tenth = 3602879701896397 / 36028797018963968"

definition tenth_items :: "json list" where
  "tenth_items =
     [JObj [(''productId'', JStr ''p1''), (''quantity'', JNum 3), (''price'', JNum tenth)]]"

definition tenth_payload :: json where
  "tenth_payload =
     JObj [(''items'', JArr tenth_items),
           (''shippingAddress'',
              JObj [(''street'', JStr ''1 Main St''), (''city'', JStr ''Springfield''),
                    (''state'', JStr ''IL''), (''zipCode'', JStr ''62701''),
                    (''country'', JStr ''US'')])]"

definition product_payload :: json where
  "product_payload =
     JObj [(''name'', JStr ''Pen''), (''price'', JNum (3 / 2)), (''category'', JStr ''office''),
           (''stock'', JNum 10)]"

definition order_of_alice :: obj where
  "order_of_alice =
     [(''id'', JStr ''o1''), (''type'', JStr ''order''), (''userId'', JStr ''user-A'')]"

definition orders_table :: table where
  "orders_table = [(''o1'', ''order'') \<mapsto> order_of_alice]"

definition products_table :: table where
  "products_table =
     [(''p1'', ''product'') \<mapsto>
        [(''id'', JStr ''p1''), (''type'', JStr ''product''), (''name'', JStr ''Pen''),
         (''price'', JNum (3 / 2)), (''category'', JStr ''office''), (''stock'', JNum 10),
         (''createdAt'', JStr ''2023-12-31T00:00:00.000Z''),
         (''updatedAt'', JStr ''2023-12-31T00:00:00.000Z'')]]"

definition users_table :: table where
  "users_table =
     [(''a@x.com'', ''user'') \<mapsto>
        [(''id'', JStr ''a@x.com''), (''type'', JStr ''user''), (''userId'', JStr ''user-A''),
         (''name'', JStr ''Ann''), (''password'', JStr ''hash:Abc12345!''),
         (''createdAt'', JStr ''2023-12-31T00:00:00.000Z'')]]"

section \<open>Properties\<close>

subsection \<open>Responses\<close>

lemma statusCode_failure [simp]: "statusCode (failure c m ev) = c"
  by (simp add: failure_def response_def)

lemma body_failure [simp]:
  "body (failure c m ev) = JObj [(''success'', JBool False), (''error'', JStr m)]"
  by (simp add: failure_def response_def)

lemma statusCode_success [simp]: "statusCode (success d ev) = 200"
  by (simp add: success_def response_def)

lemma statusCode_created [simp]: "statusCode (created d ev) = 201"
  by (simp add: created_def response_def)

lemma body_success [simp]:
  "body (success d ev) = JObj [(''success'', JBool True), (''data'', d)]"
  by (simp add: success_def response_def)

lemma body_created [simp]:
  "body (created d ev) = JObj [(''success'', JBool True), (''data'', d)]"
  by (simp add: created_def response_def)

lemmas failures = badRequest_def unauthorized_def notFound_def serverError_def

lemma answers_failure [simp]:
  "answers (failure c m ev, t') code message t \<longleftrightarrow> c = code \<and> m = message \<and> t' = t"
  by (auto simp: answers_def)

subsection \<open>Objects and placeholders\<close>

lemma map_of_assign: "map_of (assign ob kv) = (map_of ob)(fst kv \<mapsto> snd kv)"
  by (simp add: assign_def update_conv')

lemma map_of_foldl_assign:
  "map_of (foldl assign ob sets) = map_of ob ++ map_of (rev sets)"
proof (induction sets arbitrary: ob)
  case Nil
  show ?case by simp
next
  case (Cons s sets)
  show ?case
    by (auto simp: Cons.IH map_of_assign map_add_def fun_eq_iff split: option.splits)
qed

lemma map_of_rev_None: "map_of (rev xs) k = None \<longleftrightarrow> k \<notin> fst ` set xs"
  by (simp add: map_of_eq_None_iff)


lemma set_entries: "fst ` set (entries kvs) = fst ` set kvs"
  using clearjunk_keys_set [of kvs] by (simp add: entries_def)







subsection \<open>The table\<close>

lemma put_Some:
  assumes "put item t = Some t'"
    and "map_of item ''id'' = Some (JStr i)" and "map_of item ''type'' = Some (JStr ty)"
  shows "t' = t((i, ty) \<mapsto> item)"
  using assms by (simp add: put_def split: if_splits)



subsection \<open>Schemas\<close>





lemmas joi_defs = validate_def joi_object_def joi_array_def joi_string_def joi_number_def
  check_number_def check_rules_def presence_def err_def child_def entries_def
  string_email_def string_uri_def string_min_def number_integer_def number_min_def
  number_positive_def

lemma joi_object_keys:
  assumes "joi_object keys required path (Some (JObj kvs)) = None"
  shows "fst ` set kvs \<subseteq> set (map fst keys)"
proof -
  from assms have "filter (\<lambda>k. k \<notin> set (map fst keys)) (map fst (entries kvs)) = []"
    by (auto simp: joi_object_def err_def split: option.splits list.splits)
  then have "\<forall>k \<in> set (map fst (AList.clearjunk kvs)). k \<in> set (map fst keys)"
    by (simp add: entries_def filter_empty_conv)
  then show ?thesis
    unfolding clearjunk_keys_set by auto
qed

lemma joi_object_unknown:
  assumes "k \<in> fst ` set kvs" and "k \<notin> set (map fst keys)"
  shows "\<exists>message. joi_object keys required path (Some (JObj kvs)) = Some message"
  using joi_object_keys [of keys required path kvs] assms
  by (cases "joi_object keys required path (Some (JObj kvs))") auto

lemma joi_object_is_object:
  "joi_object keys required path (Some v) = None \<Longrightarrow> \<exists>kvs. v = JObj kvs"
  by (cases v) (simp_all add: joi_object_def err_def)

lemma productSchema_keys:
  assumes "validate (productSchema env) (JObj kvs) = None"
  shows "fst ` set kvs \<subseteq>
    {''name'', ''description'', ''price'', ''category'', ''stock'', ''imageUrl''}"
  using joi_object_keys [OF assms [unfolded validate_def productSchema_def]] by simp

lemma updateProductSchema_keys:
  assumes "validate (updateProductSchema env) (JObj kvs) = None"
  shows "fst ` set kvs \<subseteq>
    {''name'', ''description'', ''price'', ''category'', ''stock'', ''imageUrl''}"
  using joi_object_keys [OF assms [unfolded validate_def updateProductSchema_def]] by simp


subsection \<open>The examples\<close>

lemma example_env_simps:
  "uuidv4 example_env = ''uuid-1''"
  "now example_env n = ''2024-01-01T00:00:00.000Z''"
  "coerce_number example_env s = None"
  "ToNumber example_env v = None"
  "is_email example_env s \<longleftrightarrow> CHR ''@'' \<in> set s"
  "is_uri example_env s \<longleftrightarrow> startsWith s ''https://''"
  "JWT_SECRET example_env = Some ''secret''"
  "bcrypt_compare example_env password hash \<longleftrightarrow> hash = ''hash:'' @ password"
  by (simp_all add: example_env_def)

lemma request_simps:
  "ev_body (request h i payload) = payload"
  "pathParameters (request h i payload) ''id'' = Some i"
  by (simp_all add: request_def)

lemma authenticateToken_alice:
  "authenticateToken example_env (request ''Bearer token-A'' i payload) = Inr alice"
  by (simp add: authenticateToken_def request_def js_or_def verifyToken_def
      example_env_def startsWith_def)

lemma orders_caller_alice:
  "orders_caller example_env (request ''Bearer token-A'' i payload) = Some alice"
  by (simp add: orders_caller_def request_def js_or_def orders_verifyToken_def
      example_env_def startsWith_def)

lemma orders_caller_bob:
  "orders_caller example_env (request ''Bearer token-B'' i payload) = Some bob"
  by (simp add: orders_caller_def request_def js_or_def orders_verifyToken_def
      example_env_def startsWith_def)

lemma order_payload_valid: "validate (orderSchema example_env) order_payload = None"
  by (simp add: order_payload_def orderSchema_def orderItemSchema_def joi_defs
      example_env_simps)

lemma product_payload_valid: "validate (productSchema example_env) product_payload = None"
  by (simp add: product_payload_def productSchema_def joi_defs example_env_simps)


lemma pen_stored:
  "products_table (''p1'', ''product'') =
     Some [(''id'', JStr ''p1''), (''type'', JStr ''product''), (''name'', JStr ''Pen''),
           (''price'', JNum (3 / 2)), (''category'', JStr ''office''), (''stock'', JNum 10),
           (''createdAt'', JStr ''2023-12-31T00:00:00.000Z''),
           (''updatedAt'', JStr ''2023-12-31T00:00:00.000Z'')]"
  by (simp add: products_table_def)

lemma credentials_example:
  "credentials example_env (login_request ''nobody@x.com'' ''Abc12345!'')
     = Some (''nobody@x.com'', ''Abc12345!'')"
  "credentials example_env (login_request ''a@x.com'' ''wrong'') = Some (''a@x.com'', ''wrong'')"
  by (simp_all add: credentials_def login_request_def loginSchema_def joi_defs literal_def
      List.map_filter_def example_env_def)

lemma double_examples:
  "double 3 = Some 3"
  "double 10 = Some 10"
  "double 13 = Some 13"
  by code_simp+

lemma orders_create_example:
  "statusCode (fst (orders_create example_env
      (request ''Bearer token-A'' [] (Some order_payload)) Map.empty)) = 201"
  by (simp add: orders_create_def request_def js_or_def startsWith_def
      orders_verifyToken_def example_env_def alice_def order_payload_def orderSchema_def
      orderItemSchema_def joi_defs totalAmount_def js_number_def put_def Let_def
      double_examples key_accepted_def)

subsection \<open>Authorization\<close>

text \<open>
  \<open>authenticateToken\<close> accepts exactly a header that starts with \<open>Bearer\<close> and a
  space and carries a token that verifies, and answers 401 otherwise. The orders handlers
  answer 401 when the header is absent or what they take for the token does not verify.
\<close>

lemma authenticateToken_accepts:
  "authenticateToken env event = Inr decoded \<longleftrightarrow>
     (\<exists>authHeader.
        js_or (ev_headers event ''Authorization'') (ev_headers event ''authorization'')
          = Some authHeader \<and>
        startsWith authHeader ''Bearer '' \<and>
        verifyToken env (drop 7 authHeader) = Some decoded)"
  by (auto simp: authenticateToken_def startsWith_def split: option.splits)

lemma authenticateToken_refuses:
  "authenticateToken env event = Inl resp \<Longrightarrow> statusCode resp = 401"
  by (auto simp: authenticateToken_def failures split: option.splits if_splits)

lemma orders_refuse:
  assumes "orders_caller env event = None"
  shows "statusCode (fst (orders_create env event t)) = 401"
    and "statusCode (fst (orders_getById env event t)) = 401"
  using assms
  by (auto simp: orders_caller_def orders_create_def orders_getById_def failures
      split: option.splits if_splits)

text \<open>
  C2. The header \<open>Authorization: token-A\<close> carries a valid token without the
  \<open>Bearer\<close> prefix. \<open>authenticateToken\<close> refuses it with 401; \<open>create\<close> of
  orders.js, whose \<open>replace\<close> leaves such a header as it is, accepts it and creates
  the order.
\<close>

theorem orders_create_accepts_bare_token:
  "authenticateToken example_env (request ''token-A'' [] (Some order_payload)) =
     Inl (unauthorized ''Invalid authorization format. Use: Bearer <token>'' None) \<and>
   statusCode (fst (orders_create example_env (request ''token-A'' [] (Some order_payload))
     Map.empty)) = 201"
  by (simp add: authenticateToken_def orders_create_def request_def js_or_def startsWith_def
      orders_verifyToken_def example_env_def alice_def order_payload_def orderSchema_def
      orderItemSchema_def joi_defs totalAmount_def js_number_def put_def Let_def
      double_examples key_accepted_def)

subsection \<open>Bodies that fail validation\<close>

lemma register_invalid:
  assumes "ev_body event = Some data" and "data \<noteq> JNull"
    and "validate (registerSchema env)
           (JObj (literal [(''email'', field data ''email''),
                           (''password'', field data ''password''),
                           (''name'', field data ''name'')])) = Some message"
  shows "register env event t = (badRequest message None, t)"
  using assms by (cases data) (simp_all add: register_def)

lemma login_invalid:
  assumes "ev_body event = Some data" and "data \<noteq> JNull"
    and "validate (loginSchema env)
           (JObj (literal [(''email'', field data ''email''),
                           (''password'', field data ''password'')])) = Some message"
  shows "login_with ev env event t = (badRequest message ev, t)"
  using assms by (cases data) (simp_all add: login_with_def)

lemma orders_create_invalid:
  assumes "orders_caller env event = Some caller" and "ev_body event = Some data"
    and "validate (orderSchema env) data = Some message"
  shows "orders_create env event t = (badRequest message None, t)"
  using assms
  by (auto simp: orders_create_def orders_caller_def split: option.splits if_splits)

lemma orders_create_unparseable:
  assumes "orders_caller env event = Some caller" and "ev_body event = None"
  shows "orders_create env event t = (serverError ''Internal server error'' None, t)"
  using assms
  by (auto simp: orders_create_def orders_caller_def split: option.splits if_splits)

lemma products_create_invalid:
  assumes "authenticateToken env event = Inr caller" and "ev_body event = Some data"
    and "validate (productSchema env) data = Some message"
  shows "products_create env event t = (badRequest message None, t)"
  using assms by (simp add: products_create_def)

lemma products_update_invalid:
  assumes "authenticateToken env event = Inr caller" and "ev_body event = Some data"
    and "validate (updateProductSchema env) data = Some message"
  shows "products_update env event t = (badRequest message None, t)"
  using assms by (simp add: products_update_def)

text \<open>
  C8, as stated: a body that is not parseable JSON is answered 500, not 400.
\<close>

theorem unparseable_body_counterexample:
  "statusCode (fst (register example_env unparseable Map.empty)) = 500 \<and>
   statusCode (fst (register example_env unparseable Map.empty)) \<noteq> 400"
  by (simp add: register_def unparseable_def failures)

text \<open>
  C8, amended. A body that parses (for \<open>register\<close> and \<open>login\<close>: to a value other than
  \<open>null\<close>) and fails the schema of the handler is answered 400 with the message of the
  first validation error, once the caller is accepted where the handler asks for a
  token, and the table is unchanged. A body that does not parse is answered 500 with
  \<open>Internal server error\<close>.
\<close>

theorem invalid_body_400:
  "(ev_body event = Some data \<and> data \<noteq> JNull \<and>
    validate (registerSchema env)
      (JObj (literal [(''email'', field data ''email''),
                      (''password'', field data ''password''),
                      (''name'', field data ''name'')])) = Some message \<longrightarrow>
      answers (register env event t) 400 message t) \<and>
   (ev_body event = Some data \<and> data \<noteq> JNull \<and>
    validate (loginSchema env)
      (JObj (literal [(''email'', field data ''email''),
                      (''password'', field data ''password'')])) = Some message \<longrightarrow>
      answers (login env event t) 400 message t \<and>
      answers (login_hardened env event t) 400 message t) \<and>
   (orders_caller env event = Some caller \<and> ev_body event = Some data \<and>
    validate (orderSchema env) data = Some message \<longrightarrow>
      answers (orders_create env event t) 400 message t) \<and>
   (authenticateToken env event = Inr caller \<and> ev_body event = Some data \<and>
    validate (productSchema env) data = Some message \<longrightarrow>
      answers (products_create env event t) 400 message t) \<and>
   (authenticateToken env event = Inr caller \<and> ev_body event = Some data \<and>
    validate (updateProductSchema env) data = Some message \<longrightarrow>
      answers (products_update env event t) 400 message t) \<and>
   (ev_body event = None \<longrightarrow>
      answers (register env event t) 500 ''Internal server error'' t \<and>
      answers (login env event t) 500 ''Internal server error'' t \<and>
      answers (login_hardened env event t) 500 ''Internal server error'' t) \<and>
   (orders_caller env event = Some caller \<and> ev_body event = None \<longrightarrow>
      answers (orders_create env event t) 500 ''Internal server error'' t) \<and>
   (authenticateToken env event = Inr caller \<and> ev_body event = None \<longrightarrow>
      answers (products_create env event t) 500 ''Internal server error'' t \<and>
      answers (products_update env event t) 500 ''Internal server error'' t)"
proof -
  have "answers (register env event t) 400 message t"
    if "ev_body event = Some data" "data \<noteq> JNull"
      "validate (registerSchema env)
        (JObj (literal [(''email'', field data ''email''),
                        (''password'', field data ''password''),
                        (''name'', field data ''name'')])) = Some message"
    using register_invalid [OF that] by (simp add: failures)
  moreover have "answers (login env event t) 400 message t \<and>
      answers (login_hardened env event t) 400 message t"
    if "ev_body event = Some data" "data \<noteq> JNull"
      "validate (loginSchema env)
        (JObj (literal [(''email'', field data ''email''),
                        (''password'', field data ''password'')])) = Some message"
    using login_invalid [OF that] by (simp add: failures login_def login_hardened_def)
  moreover have "answers (orders_create env event t) 400 message t"
    if "orders_caller env event = Some caller" "ev_body event = Some data"
      "validate (orderSchema env) data = Some message"
    using orders_create_invalid [OF that] by (simp add: failures)
  moreover have "answers (products_create env event t) 400 message t"
    if "authenticateToken env event = Inr caller" "ev_body event = Some data"
      "validate (productSchema env) data = Some message"
    using products_create_invalid [OF that] by (simp add: failures)
  moreover have "answers (products_update env event t) 400 message t"
    if "authenticateToken env event = Inr caller" "ev_body event = Some data"
      "validate (updateProductSchema env) data = Some message"
    using products_update_invalid [OF that] by (simp add: failures)
  moreover have "answers (register env event t) 500 ''Internal server error'' t \<and>
      answers (login env event t) 500 ''Internal server error'' t \<and>
      answers (login_hardened env event t) 500 ''Internal server error'' t"
    if "ev_body event = None"
    using that by (simp add: register_def login_def login_hardened_def login_with_def failures)
  moreover have "answers (orders_create env event t) 500 ''Internal server error'' t"
    if "orders_caller env event = Some caller" "ev_body event = None"
    using orders_create_unparseable [OF that] by (simp add: failures)
  moreover have "answers (products_create env event t) 500 ''Internal server error'' t \<and>
      answers (products_update env event t) 500 ''Internal server error'' t"
    if "authenticateToken env event = Inr caller" "ev_body event = None"
    using that by (simp add: products_create_def products_update_def failures)
  ultimately show ?thesis by blast
qed

theorem invalid_body_400_witness:
  "answers (register example_env (body_request (JObj [(''email'', JStr ''a@x.com'')]))
      Map.empty)
     400 (dq # ''password'' @ dq # '' is required'') Map.empty \<and>
   answers (orders_create example_env (request ''Bearer token-A'' [] (Some (JObj [])))
      Map.empty)
     400 (dq # ''items'' @ dq # '' is required'') Map.empty \<and>
   answers (register example_env unparseable Map.empty) 500 ''Internal server error''
     Map.empty"
proof -
  have parsed: "ev_body (body_request (JObj [(''email'', JStr ''a@x.com'')]))
      = Some (JObj [(''email'', JStr ''a@x.com'')])"
    and not_null: "JObj [(''email'', JStr ''a@x.com'')] \<noteq> JNull"
    and invalid: "validate (registerSchema example_env)
      (JObj (literal
        [(''email'', field (JObj [(''email'', JStr ''a@x.com'')]) ''email''),
         (''password'', field (JObj [(''email'', JStr ''a@x.com'')]) ''password''),
         (''name'', field (JObj [(''email'', JStr ''a@x.com'')]) ''name'')]))
      = Some (dq # ''password'' @ dq # '' is required'')"
    by (simp_all add: body_request_def registerSchema_def joi_defs literal_def
        List.map_filter_def example_env_def)
  have empty: "ev_body (request ''Bearer token-A'' [] (Some (JObj []))) = Some (JObj [])"
    and no_items: "validate (orderSchema example_env) (JObj [])
      = Some (dq # ''items'' @ dq # '' is required'')"
    by (simp_all add: request_def orderSchema_def joi_defs)
  have none: "ev_body unparseable = None"
    by (simp add: unparseable_def)
  from parsed not_null invalid
    invalid_body_400 [of "body_request (JObj [(''email'', JStr ''a@x.com'')])"
      "JObj [(''email'', JStr ''a@x.com'')]" example_env
      "dq # ''password'' @ dq # '' is required''" Map.empty]
  have one: "answers (register example_env (body_request (JObj [(''email'', JStr ''a@x.com'')]))
      Map.empty) 400 (dq # ''password'' @ dq # '' is required'') Map.empty"
    by blast
  from empty no_items orders_caller_alice [of "[]" "Some (JObj [])"]
    invalid_body_400 [of "request ''Bearer token-A'' [] (Some (JObj []))" "JObj []"
      example_env "dq # ''items'' @ dq # '' is required''" Map.empty alice]
  have two: "answers (orders_create example_env (request ''Bearer token-A'' [] (Some (JObj [])))
      Map.empty) 400 (dq # ''items'' @ dq # '' is required'') Map.empty"
    by blast
  from none invalid_body_400 [of unparseable _ example_env _ Map.empty]
  have three: "answers (register example_env unparseable Map.empty) 500
      ''Internal server error'' Map.empty"
    by blast
  from one two three show ?thesis by blast
qed

subsection \<open>Login failures\<close>

lemma credentials_data:
  assumes "credentials env event = Some (m, p)"
  obtains data where "ev_body event = Some data" and "data \<noteq> JNull"
    and "field data ''email'' = Some (JStr m)" and "field data ''password'' = Some (JStr p)"
    and "validate (loginSchema env)
           (JObj (literal [(''email'', field data ''email''),
                           (''password'', field data ''password'')])) = None"
proof -
  from assms obtain data where d: "ev_body event = Some data"
    by (auto simp: credentials_def split: option.splits)
  with assms have f: "field data ''email'' = Some (JStr m)"
    "field data ''password'' = Some (JStr p)"
    and v: "validate (loginSchema env)
           (JObj (literal [(''email'', field data ''email''),
                           (''password'', field data ''password'')])) = None"
    by (auto simp: credentials_def split: option.splits json.splits if_splits)
  from f have "data \<noteq> JNull" by auto
  with d f v that show thesis by blast
qed

lemma login_unknown:
  assumes "credentials env event = Some (m, p)" and "t (m, ''user'') = None"
    and "key_accepted (m, ''user'')"
  shows "login_with ev env event t = (unauthorized ''Invalid credentials'' ev, t)"
proof -
  from assms(1) obtain data where "ev_body event = Some data" and "data \<noteq> JNull"
    and "field data ''email'' = Some (JStr m)" and "field data ''password'' = Some (JStr p)"
    and "validate (loginSchema env)
           (JObj (literal [(''email'', field data ''email''),
                           (''password'', field data ''password'')])) = None"
    by (rule credentials_data)
  with assms(2,3) show ?thesis
    by (cases data) (simp_all add: login_with_def get_def)
qed

lemma login_mismatch:
  assumes "credentials env event = Some (m, p)" and "t (m, ''user'') = Some user"
    and "map_of user ''password'' = Some (JStr hash)" and "\<not> bcrypt_compare env p hash"
  shows "login_with ev env event t = (unauthorized ''Invalid credentials'' ev, t)"
proof -
  from assms(1) obtain data where "ev_body event = Some data" and "data \<noteq> JNull"
    and "field data ''email'' = Some (JStr m)" and "field data ''password'' = Some (JStr p)"
    and "validate (loginSchema env)
           (JObj (literal [(''email'', field data ''email''),
                           (''password'', field data ''password'')])) = None"
    by (rule credentials_data)
  with assms(2-) show ?thesis
    by (cases data) (simp_all add: login_with_def get_def)
qed

text \<open>
  C5, as stated: the user \<open>a@x.com\<close> is stored and the empty password is not the
  user's, but the request is answered 400, not 401: the schema refuses an empty password
  before the user is looked up.
\<close>

theorem login_empty_password_counterexample:
  "users_table (''a@x.com'', ''user'') \<noteq> None \<and>
   \<not> bcrypt_compare example_env [] ''hash:Abc12345!'' \<and>
   statusCode (fst (login example_env (login_request ''a@x.com'' []) users_table)) = 400 \<and>
   statusCode (fst (login_hardened example_env (login_request ''a@x.com'' []) users_table))
     = 400"
  by (simp add: users_table_def example_env_simps login_def login_hardened_def login_with_def
      login_request_def loginSchema_def joi_defs literal_def List.map_filter_def failures)

text \<open>
  C5, amended. Two login requests that pass \<open>loginSchema\<close>, the first with an email
  under which no user is stored and which the table accepts as a key (at most 2048
  bytes), the second with the email of a stored user and a password that
  \<open>bcrypt.compare\<close> rejects: in both versions of the handler both are answered 401
  with the same body, the generic message \<open>Invalid credentials\<close>, and in the first
  version the two responses are equal altogether.
\<close>

theorem login_enumeration_resistance:
  assumes "credentials env e1 = Some (m1, p1)" and "t (m1, ''user'') = None"
    and "key_accepted (m1, ''user'')"
    and "credentials env e2 = Some (m2, p2)" and "t (m2, ''user'') = Some user"
    and "map_of user ''password'' = Some (JStr hash)" and "\<not> bcrypt_compare env p2 hash"
  shows "(\<forall>handler \<in> {login, login_hardened}. \<forall>e \<in> {e1, e2}.
           statusCode (fst (handler env e t)) = 401 \<and>
           body (fst (handler env e t)) =
             JObj [(''success'', JBool False), (''error'', JStr ''Invalid credentials'')] \<and>
           snd (handler env e t) = t) \<and>
         login env e1 t = login env e2 t"
  using login_unknown [where t = t, OF assms(1-3)] login_mismatch [where t = t, OF assms(4-7)]
  by (simp add: login_def login_hardened_def failures)

theorem login_enumeration_resistance_witness:
  "statusCode (fst (login example_env (login_request ''nobody@x.com'' ''Abc12345!'')
     users_table)) = 401 \<and>
   statusCode (fst (login_hardened example_env (login_request ''a@x.com'' ''wrong'')
     users_table)) = 401 \<and>
   login example_env (login_request ''nobody@x.com'' ''Abc12345!'') users_table =
     login example_env (login_request ''a@x.com'' ''wrong'') users_table"
proof -
  have unknown: "users_table (''nobody@x.com'', ''user'') = None"
    and known: "users_table (''a@x.com'', ''user'') =
      Some [(''id'', JStr ''a@x.com''), (''type'', JStr ''user''), (''userId'', JStr ''user-A''),
         (''name'', JStr ''Ann''), (''password'', JStr ''hash:Abc12345!''),
         (''createdAt'', JStr ''2023-12-31T00:00:00.000Z'')]"
    by (simp_all add: users_table_def)
  have key: "key_accepted (''nobody@x.com'', ''user'')"
    by (simp add: key_accepted_def)
  have hash: "map_of [(''id'', JStr ''a@x.com''), (''type'', JStr ''user''),
         (''userId'', JStr ''user-A''),
         (''name'', JStr ''Ann''), (''password'', JStr ''hash:Abc12345!''),
         (''createdAt'', JStr ''2023-12-31T00:00:00.000Z'')] ''password''
       = Some (JStr ''hash:Abc12345!'')"
    by simp
  have wrong: "\<not> bcrypt_compare example_env ''wrong'' ''hash:Abc12345!''"
    by (simp add: example_env_def)
  show ?thesis
    using login_enumeration_resistance
      [OF credentials_example(1) unknown key credentials_example(2) known hash wrong]
    by simp
qed

subsection \<open>Creating an order\<close>

lemma orders_create_success:
  assumes "statusCode (fst (orders_create env event t)) = 201"
  shows "\<exists>caller orderData items shippingAddress amount.
           orders_caller env event = Some caller \<and>
           ev_body event = Some orderData \<and>
           validate (orderSchema env) orderData = None \<and>
           field orderData ''items'' = Some (JArr items) \<and>
           field orderData ''shippingAddress'' = Some shippingAddress \<and>
           totalAmount env items = Some amount \<and>
           orders_create env event t =
             (created
                (JObj [(''id'', JStr (uuidv4 env)),
                       (''type'', JStr ''order''),
                       (''userId'', JStr (userId caller)),
                       (''userEmail'', JStr (email caller)),
                       (''items'', JArr items),
                       (''shippingAddress'', shippingAddress),
                       (''totalAmount'', JNum amount),
                       (''status'', JStr ''pending''),
                       (''createdAt'', JStr (now env 0)),
                       (''updatedAt'', JStr (now env 1))])
                None,
              t((uuidv4 env, ''order'') \<mapsto>
                  [(''id'', JStr (uuidv4 env)),
                   (''type'', JStr ''order''),
                   (''userId'', JStr (userId caller)),
                   (''userEmail'', JStr (email caller)),
                   (''items'', JArr items),
                   (''shippingAddress'', shippingAddress),
                   (''totalAmount'', JNum amount),
                   (''status'', JStr ''pending''),
                   (''createdAt'', JStr (now env 0)),
                   (''updatedAt'', JStr (now env 1))]))"
  using assms
  by (auto simp: orders_create_def orders_caller_def failures put_def Let_def
      split: option.splits if_splits json.splits)

lemma totalAmount_priced:
  fixes env :: env
  defines "F \<equiv>
       (\<lambda>sum item.
          case (sum, js_number env (field item ''price''), js_number env (field item ''quantity'')) of
            (Some s, Some p, Some q) \<Rightarrow>
              (case double (p * q) of
                 None \<Rightarrow> None
               | Some product \<Rightarrow> double (s + product))
          | _ \<Rightarrow> None)"
    and "G \<equiv>
       (\<lambda>sum pq.
          case sum of
            None \<Rightarrow> None
          | Some s \<Rightarrow>
              (case double (fst pq * snd pq) of
                 None \<Rightarrow> None
               | Some product \<Rightarrow> double (s + product)))"
  assumes "list_all2 priced items pqs"
  shows "foldl F acc items = foldl G acc pqs"
  using assms(3)
proof (induction arbitrary: acc rule: list_all2_induct)
  case Nil
  show ?case by simp
next
  case (Cons item items pq pqs)
  from Cons.hyps(1) have "F acc item = G acc pq"
    by (cases acc) (simp_all add: F_def G_def priced_def js_number_def)
  then show ?case
    by (simp add: Cons.IH)
qed

lemma double_sum_exact:
  assumes "exact_from s pqs"
  shows "foldl
       (\<lambda>sum pq.
          case sum of
            None \<Rightarrow> None
          | Some s \<Rightarrow>
              (case double (fst pq * snd pq) of
                 None \<Rightarrow> None
               | Some product \<Rightarrow> double (s + product)))
       (Some s) pqs
     = Some (s + (\<Sum>(p, q)\<leftarrow>pqs. p * q))"
  using assms
proof (induction pqs arbitrary: s)
  case Nil
  show ?case by simp
next
  case (Cons pq pqs)
  then show ?case
    by (cases pq) (simp add: add.assoc)
qed

lemma orders_create_valid:
  assumes "orders_caller env event = Some decoded"
    and "ev_body event = Some orderData"
    and "validate (orderSchema env) orderData = None"
    and "field orderData ''items'' = Some (JArr items)"
    and "field orderData ''shippingAddress'' = Some shippingAddress"
    and "totalAmount env items = Some amount"
  shows "orders_create env event t =
     (case put [(''id'', JStr (uuidv4 env)),
                (''type'', JStr ''order''),
                (''userId'', JStr (userId decoded)),
                (''userEmail'', JStr (email decoded)),
                (''items'', JArr items),
                (''shippingAddress'', shippingAddress),
                (''totalAmount'', JNum amount),
                (''status'', JStr ''pending''),
                (''createdAt'', JStr (now env 0)),
                (''updatedAt'', JStr (now env 1))] t of
        None \<Rightarrow> (serverError ''Internal server error'' None, t)
      | Some t' \<Rightarrow>
          (created
             (JObj [(''id'', JStr (uuidv4 env)),
                    (''type'', JStr ''order''),
                    (''userId'', JStr (userId decoded)),
                    (''userEmail'', JStr (email decoded)),
                    (''items'', JArr items),
                    (''shippingAddress'', shippingAddress),
                    (''totalAmount'', JNum amount),
                    (''status'', JStr ''pending''),
                    (''createdAt'', JStr (now env 0)),
                    (''updatedAt'', JStr (now env 1))])
             None,
           t'))"
  using assms
  by (auto simp: orders_create_def orders_caller_def Let_def split: option.splits if_splits)

lemma tenth_valid: "validate (orderSchema example_env) tenth_payload = None"
  by (simp add: tenth_payload_def tenth_items_def tenth_def orderSchema_def orderItemSchema_def
      joi_defs example_env_simps)

lemma tenth_rounded:
  "double (tenth * 3) = Some (1351079888211149 / 4503599627370496)"
  "double (1351079888211149 / 4503599627370496)
     = Some (1351079888211149 / 4503599627370496)"
  by code_simp+

lemma tenth_total:
  "totalAmount example_env tenth_items = Some (1351079888211149 / 4503599627370496)"
  by (simp add: totalAmount_def tenth_items_def js_number_def tenth_rounded)

text \<open>
  C1, as stated: one item with the price 0.1 and the quantity 3. The product is
  rounded to the double 0.30000000000000004, which is what the order stores; it is
  neither three times the price nor three tenths.
\<close>

theorem orders_create_total_counterexample:
  "statusCode (fst (orders_create example_env
      (request ''Bearer token-A'' [] (Some tenth_payload)) Map.empty)) = 201 \<and>
   stored_field
     (snd (orders_create example_env (request ''Bearer token-A'' [] (Some tenth_payload))
        Map.empty))
     (''uuid-1'', ''order'') ''totalAmount''
     = Some (JNum (1351079888211149 / 4503599627370496)) \<and>
   (1351079888211149 / 4503599627370496 :: rat) \<noteq> tenth * 3 \<and>
   (1351079888211149 / 4503599627370496 :: rat) \<noteq> 3 / 10"
proof -
  have parsed: "ev_body (request ''Bearer token-A'' [] (Some tenth_payload))
      = Some tenth_payload"
    by (simp add: request_simps)
  have items: "field tenth_payload ''items'' = Some (JArr tenth_items)"
    and address: "field tenth_payload ''shippingAddress'' =
      Some (JObj [(''street'', JStr ''1 Main St''), (''city'', JStr ''Springfield''),
                  (''state'', JStr ''IL''), (''zipCode'', JStr ''62701''),
                  (''country'', JStr ''US'')])"
    by (simp_all add: tenth_payload_def)
  have safe: "storable (JArr tenth_items)"
    by (simp add: tenth_items_def tenth_def)
  have "orders_create example_env (request ''Bearer token-A'' [] (Some tenth_payload))
      Map.empty
    = (created
         (JObj [(''id'', JStr ''uuid-1''),
                (''type'', JStr ''order''),
                (''userId'', JStr ''user-A''),
                (''userEmail'', JStr ''a@x.com''),
                (''items'', JArr tenth_items),
                (''shippingAddress'',
                   JObj [(''street'', JStr ''1 Main St''), (''city'', JStr ''Springfield''),
                         (''state'', JStr ''IL''), (''zipCode'', JStr ''62701''),
                         (''country'', JStr ''US'')]),
                (''totalAmount'', JNum (1351079888211149 / 4503599627370496)),
                (''status'', JStr ''pending''),
                (''createdAt'', JStr ''2024-01-01T00:00:00.000Z''),
                (''updatedAt'', JStr ''2024-01-01T00:00:00.000Z'')])
         None,
       [(''uuid-1'', ''order'') \<mapsto>
          [(''id'', JStr ''uuid-1''),
           (''type'', JStr ''order''),
           (''userId'', JStr ''user-A''),
           (''userEmail'', JStr ''a@x.com''),
           (''items'', JArr tenth_items),
           (''shippingAddress'',
              JObj [(''street'', JStr ''1 Main St''), (''city'', JStr ''Springfield''),
                    (''state'', JStr ''IL''), (''zipCode'', JStr ''62701''),
                    (''country'', JStr ''US'')]),
           (''totalAmount'', JNum (1351079888211149 / 4503599627370496)),
           (''status'', JStr ''pending''),
           (''createdAt'', JStr ''2024-01-01T00:00:00.000Z''),
           (''updatedAt'', JStr ''2024-01-01T00:00:00.000Z'')]])"
    using safe
    by (simp add: orders_create_valid
          [OF orders_caller_alice parsed tenth_valid items address tenth_total]
        example_env_simps alice_def put_def key_accepted_def del: storable.simps(2))
  then show ?thesis
    by (simp add: stored_field_def tenth_def)
qed

text \<open>
  C1, amended. An order create request answered 201, whose items carry the prices and
  quantities \<open>pqs\<close> as numbers, has stored and returned an order with these items whose
  \<open>totalAmount\<close> is the sum of price times quantity over the items in the arithmetic of
  doubles, from 0 and from left to right, each product and each partial sum rounded to
  the nearest double. Where no product and no partial sum is changed by the rounding,
  it is the exact sum.
\<close>

theorem orders_create_total:
  assumes "statusCode (fst (orders_create env event t)) = 201"
    and "ev_body event = Some orderData"
    and "field orderData ''items'' = Some (JArr items)"
    and "list_all2 priced items pqs"
  shows "\<exists>order amount.
           snd (orders_create env event t) (uuidv4 env, ''order'') = Some order \<and>
           body (fst (orders_create env event t)) =
             JObj [(''success'', JBool True), (''data'', JObj order)] \<and>
           map_of order ''items'' = Some (JArr items) \<and>
           map_of order ''totalAmount'' = Some (JNum amount) \<and>
           double_sum pqs = Some amount \<and>
           (exact_from 0 pqs \<longrightarrow> amount = (\<Sum>(p, q)\<leftarrow>pqs. p * q))"
proof -
  from orders_create_success [OF assms(1)]
  obtain caller :: claims and orderData' items' shippingAddress amount
    where parsed: "ev_body event = Some orderData'"
      and items': "field orderData' ''items'' = Some (JArr items')"
      and amount: "totalAmount env items' = Some amount"
      and result: "orders_create env event t =
         (created
            (JObj [(''id'', JStr (uuidv4 env)),
                   (''type'', JStr ''order''),
                   (''userId'', JStr (userId caller)),
                   (''userEmail'', JStr (email caller)),
                   (''items'', JArr items'),
                   (''shippingAddress'', shippingAddress),
                   (''totalAmount'', JNum amount),
                   (''status'', JStr ''pending''),
                   (''createdAt'', JStr (now env 0)),
                   (''updatedAt'', JStr (now env 1))])
            None,
          t((uuidv4 env, ''order'') \<mapsto>
              [(''id'', JStr (uuidv4 env)),
               (''type'', JStr ''order''),
               (''userId'', JStr (userId caller)),
               (''userEmail'', JStr (email caller)),
               (''items'', JArr items'),
               (''shippingAddress'', shippingAddress),
               (''totalAmount'', JNum amount),
               (''status'', JStr ''pending''),
               (''createdAt'', JStr (now env 0)),
               (''updatedAt'', JStr (now env 1))]))"
    by blast
  from parsed items' assms(2,3) have same: "items' = items" by simp
  from amount totalAmount_priced [OF assms(4), of env "Some 0"]
  have rounded: "double_sum pqs = Some amount"
    by (simp add: totalAmount_def double_sum_def same)
  have "amount = (\<Sum>(p, q)\<leftarrow>pqs. p * q)" if "exact_from 0 pqs"
    using double_sum_exact [OF that] rounded by (simp add: double_sum_def)
  with rounded result same show ?thesis by simp
qed

lemma order_payload_exact: "exact_from 0 [(3 / 2, 2), (10, 1)]"
  by (simp add: double_examples)

theorem orders_create_total_witness:
  "stored_field
     (snd (orders_create example_env (request ''Bearer token-A'' [] (Some order_payload))
        Map.empty))
     (''uuid-1'', ''order'') ''totalAmount''
     = Some (JNum 13)"
proof -
  have parsed: "ev_body (request ''Bearer token-A'' [] (Some order_payload))
      = Some order_payload"
    by (simp add: request_simps)
  have items: "field order_payload ''items'' =
      Some (JArr [JObj [(''productId'', JStr ''p1''), (''quantity'', JNum 2),
                        (''price'', JNum (3 / 2))],
                  JObj [(''productId'', JStr ''p2''), (''quantity'', JNum 1),
                        (''price'', JNum 10)]])"
    by (simp add: order_payload_def)
  have priced: "list_all2 priced
      [JObj [(''productId'', JStr ''p1''), (''quantity'', JNum 2), (''price'', JNum (3 / 2))],
       JObj [(''productId'', JStr ''p2''), (''quantity'', JNum 1), (''price'', JNum 10)]]
      [(3 / 2, 2), (10, 1)]"
    by (simp add: priced_def)
  from orders_create_total [OF orders_create_example parsed items priced] order_payload_exact
  show ?thesis
    by (auto simp: example_env_simps stored_field_def)
qed

lemma orders_create_extra_key:
  assumes "orders_caller env event = Some caller" and "ev_body event = Some (JObj kvs)"
    and "k \<in> fst ` set kvs" and "k \<noteq> ''items''" and "k \<noteq> ''shippingAddress''"
  shows "\<exists>message. orders_create env event t = (badRequest message None, t)"
proof -
  have "\<exists>message. validate (orderSchema env) (JObj kvs) = Some message"
    unfolding validate_def orderSchema_def
    by (rule joi_object_unknown [OF assms(3)]) (use assms(4,5) in simp)
  then obtain message where "validate (orderSchema env) (JObj kvs) = Some message" ..
  from orders_create_invalid [OF assms(1,2) this] show ?thesis by blast
qed

text \<open>
  C10. An order create request answered 201 comes from a caller whom the handler
  accepted, and the stored order has that caller's \<open>userId\<close> and \<open>email\<close> from the token
  as \<open>userId\<close> and \<open>userEmail\<close>, and the status \<open>pending\<close>. A request of an accepted
  caller whose body has a key other than \<open>items\<close> and \<open>shippingAddress\<close> is answered
  400 and stores nothing.
\<close>

theorem orders_create_ownership:
  "(statusCode (fst (orders_create env event t)) = 201 \<longrightarrow>
      (\<exists>caller order.
         orders_caller env event = Some caller \<and>
         snd (orders_create env event t) = t((uuidv4 env, ''order'') \<mapsto> order) \<and>
         body (fst (orders_create env event t)) =
           JObj [(''success'', JBool True), (''data'', JObj order)] \<and>
         map_of order ''userId'' = Some (JStr (userId caller)) \<and>
         map_of order ''userEmail'' = Some (JStr (email caller)) \<and>
         map_of order ''status'' = Some (JStr ''pending''))) \<and>
   (\<forall>caller kvs k.
      orders_caller env event = Some caller \<and> ev_body event = Some (JObj kvs) \<and>
      k \<in> fst ` set kvs \<and> k \<noteq> ''items'' \<and> k \<noteq> ''shippingAddress'' \<longrightarrow>
      (\<exists>message. answers (orders_create env event t) 400 message t))"
proof (intro conjI impI allI)
  assume "statusCode (fst (orders_create env event t)) = 201"
  from orders_create_success [OF this] show "\<exists>caller order.
         orders_caller env event = Some caller \<and>
         snd (orders_create env event t) = t((uuidv4 env, ''order'') \<mapsto> order) \<and>
         body (fst (orders_create env event t)) =
           JObj [(''success'', JBool True), (''data'', JObj order)] \<and>
         map_of order ''userId'' = Some (JStr (userId caller)) \<and>
         map_of order ''userEmail'' = Some (JStr (email caller)) \<and>
         map_of order ''status'' = Some (JStr ''pending'')"
    by auto
next
  fix caller kvs k
  assume "orders_caller env event = Some caller \<and> ev_body event = Some (JObj kvs) \<and>
      k \<in> fst ` set kvs \<and> k \<noteq> ''items'' \<and> k \<noteq> ''shippingAddress''"
  then obtain message where "orders_create env event t = (badRequest message None, t)"
    using orders_create_extra_key [of env event caller kvs k t] by blast
  then show "\<exists>message. answers (orders_create env event t) 400 message t"
    by (auto simp: failures)
qed

theorem orders_create_ownership_witness:
  "statusCode (fst (orders_create example_env
      (request ''Bearer token-A'' [] (Some order_payload)) Map.empty)) = 201 \<and>
   map_option
     (\<lambda>order. (map_of order ''userId'', map_of order ''userEmail'', map_of order ''status''))
     (snd (orders_create example_env
        (request ''Bearer token-A'' [] (Some order_payload)) Map.empty)
      (''uuid-1'', ''order''))
     = Some (Some (JStr ''user-A''), Some (JStr ''a@x.com''), Some (JStr ''pending'')) \<and>
   statusCode (fst (orders_create example_env
      (request ''Bearer token-A'' [] (Some (JObj [(''userId'', JStr ''user-B'')])))
      Map.empty)) = 400"
proof -
  from orders_create_example
    orders_create_ownership [of example_env
      "request ''Bearer token-A'' [] (Some order_payload)" Map.empty]
  obtain caller order
    where "orders_caller example_env (request ''Bearer token-A'' [] (Some order_payload))
        = Some caller"
      and "snd (orders_create example_env
          (request ''Bearer token-A'' [] (Some order_payload)) Map.empty)
        = [(uuidv4 example_env, ''order'') \<mapsto> order]"
      and "map_of order ''userId'' = Some (JStr (userId caller))"
      and "map_of order ''userEmail'' = Some (JStr (email caller))"
      and "map_of order ''status'' = Some (JStr ''pending'')"
    by blast
  then have stored: "map_option
     (\<lambda>order. (map_of order ''userId'', map_of order ''userEmail'', map_of order ''status''))
     (snd (orders_create example_env
        (request ''Bearer token-A'' [] (Some order_payload)) Map.empty)
      (''uuid-1'', ''order''))
     = Some (Some (JStr ''user-A''), Some (JStr ''a@x.com''), Some (JStr ''pending''))"
    by (auto simp: orders_caller_alice example_env_simps alice_def)
  have parsed: "ev_body (request ''Bearer token-A'' []
        (Some (JObj [(''userId'', JStr ''user-B'')])))
      = Some (JObj [(''userId'', JStr ''user-B'')])"
    by (simp add: request_simps)
  have key: "''userId'' \<in> fst ` set [(''userId'', JStr ''user-B'')]"
    and other: "''userId'' \<noteq> ''items''" "''userId'' \<noteq> ''shippingAddress''"
    by simp_all
  from orders_caller_alice parsed key other
    orders_create_ownership [of example_env
      "request ''Bearer token-A'' [] (Some (JObj [(''userId'', JStr ''user-B'')]))" Map.empty]
  have "\<exists>message. answers (orders_create example_env
      (request ''Bearer token-A'' [] (Some (JObj [(''userId'', JStr ''user-B'')])))
      Map.empty) 400 message Map.empty"
    by blast
  then have refused: "statusCode (fst (orders_create example_env
      (request ''Bearer token-A'' [] (Some (JObj [(''userId'', JStr ''user-B'')])))
      Map.empty)) = 400"
    by (auto simp: answers_def)
  from orders_create_example stored refused show ?thesis by blast
qed

subsection \<open>Reading an order\<close>

text \<open>
  C3, as stated: an accepted caller asks for the order with the empty id. No order is
  stored under it, but the table refuses the key, \<open>get\<close> throws, and the answer is
  500, not 404.
\<close>

theorem orders_getById_refused_key_counterexample:
  "orders_caller example_env (request ''Bearer token-A'' [] None) = Some alice \<and>
   orders_table ([], ''order'') = None \<and>
   statusCode (fst (orders_getById example_env (request ''Bearer token-A'' [] None)
     orders_table)) = 500"
proof -
  have "orders_table ([], ''order'') = None"
    by (simp add: orders_table_def)
  moreover have "statusCode (fst (orders_getById example_env
      (request ''Bearer token-A'' [] None) orders_table)) = 500"
    by (simp add: orders_getById_def request_def js_or_def startsWith_def
        orders_verifyToken_def example_env_def get_def key_accepted_def orders_table_def
        failures)
  ultimately show ?thesis
    by (simp add: orders_caller_alice)
qed

text \<open>
  C3, amended. A caller whom the orders handlers accept asks for the order with the id
  of the path. No order under that id: 404 when the id is a key that the table accepts
  (1 to 2048 bytes), 500 when it is not. An order whose \<open>userId\<close> is the caller's: 200,
  with the order as data. An order of another user: 401, and so not 404. The table is
  left as it was.
\<close>

theorem orders_getById_ownership:
  assumes "orders_caller env event = Some caller"
    and "pathParameters event ''id'' = Some i"
  shows "snd (orders_getById env event t) = t \<and>
         (t (i, ''order'') = None \<longrightarrow>
            statusCode (fst (orders_getById env event t)) =
              (if key_accepted (i, ''order'') then 404 else 500)) \<and>
         (\<forall>order. t (i, ''order'') = Some order \<longrightarrow>
            (if map_of order ''userId'' = Some (JStr (userId caller))
             then statusCode (fst (orders_getById env event t)) = 200 \<and>
                  body (fst (orders_getById env event t)) =
                    JObj [(''success'', JBool True), (''data'', JObj order)]
             else statusCode (fst (orders_getById env event t)) = 401))"
  using assms
  by (auto simp: orders_caller_def orders_getById_def get_def failures
      split: option.splits if_splits)

theorem orders_getById_ownership_witness:
  "statusCode (fst (orders_getById example_env (request ''Bearer token-A'' ''o1'' None)
     orders_table)) = 200 \<and>
   statusCode (fst (orders_getById example_env (request ''Bearer token-B'' ''o1'' None)
     orders_table)) = 401 \<and>
   statusCode (fst (orders_getById example_env (request ''Bearer token-B'' ''o2'' None)
     orders_table)) = 404"
proof -
  have i1: "pathParameters (request ''Bearer token-A'' ''o1'' None) ''id'' = Some ''o1''"
    and i2: "pathParameters (request ''Bearer token-B'' ''o1'' None) ''id'' = Some ''o1''"
    and i3: "pathParameters (request ''Bearer token-B'' ''o2'' None) ''id'' = Some ''o2''"
    by (simp_all add: request_def)
  show ?thesis
    using orders_getById_ownership [OF orders_caller_alice i1, of orders_table]
      orders_getById_ownership [OF orders_caller_bob i2, of orders_table]
      orders_getById_ownership [OF orders_caller_bob i3, of orders_table]
    by (simp add: orders_table_def order_of_alice_def alice_def bob_def key_accepted_def)
qed

subsection \<open>Creating a product\<close>

lemma spread_keeps:
  assumes "k \<notin> fst ` set kvs" and "k \<noteq> ''createdAt''" and "k \<noteq> ''updatedAt''"
  shows "map_of (foldl assign (foldl assign base (entries kvs))
           [(''createdAt'', c), (''updatedAt'', u)]) k = map_of base k"
proof -
  from assms(1) have "map_of (rev (entries kvs)) k = None"
    by (simp add: map_of_rev_None set_entries)
  with assms(2,3) show ?thesis
    by (simp add: map_of_assign map_of_foldl_assign map_add_def)
qed

lemma products_create_success:
  assumes "statusCode (fst (products_create env event t)) = 201"
  shows "\<exists>product.
           products_create env event t =
             (created (JObj product) None, t((uuidv4 env, ''product'') \<mapsto> product)) \<and>
           map_of product ''id'' = Some (JStr (uuidv4 env)) \<and>
           map_of product ''type'' = Some (JStr ''product'')"
proof (cases "authenticateToken env event")
  case (Inl resp)
  then have "\<exists>m. resp = unauthorized m None"
    by (auto simp: authenticateToken_def split: option.splits if_splits)
  with Inl assms show ?thesis
    by (auto simp: products_create_def failures)
next
  case (Inr user)
  show ?thesis
  proof (cases "ev_body event")
    case None
    with Inr assms show ?thesis by (simp add: products_create_def failures)
  next
    case (Some productData)
    show ?thesis
    proof (cases "validate (productSchema env) productData")
      case (Some message)
      with Inr \<open>ev_body event = Some productData\<close> assms show ?thesis
        by (simp add: products_create_def failures)
    next
      case None
      then obtain kvs where kvs: "productData = JObj kvs"
        unfolding validate_def productSchema_def by (blast dest: joi_object_is_object)
      define product where "product =
        foldl assign
          (foldl assign [(''id'', JStr (uuidv4 env)), (''type'', JStr ''product'')] (entries kvs))
          [(''createdAt'', JStr (now env 0)), (''updatedAt'', JStr (now env 1))]"
      from None kvs productSchema_keys [of env kvs]
      have "''id'' \<notin> fst ` set kvs" and "''type'' \<notin> fst ` set kvs"
        by auto
      then have "map_of product ''id'' =
          map_of [(''id'', JStr (uuidv4 env)), (''type'', JStr ''product'')] ''id''"
        and "map_of product ''type'' =
          map_of [(''id'', JStr (uuidv4 env)), (''type'', JStr ''product'')] ''type''"
        unfolding product_def by (intro spread_keeps; simp)+
      then have i: "map_of product ''id'' = Some (JStr (uuidv4 env))"
        and ty: "map_of product ''type'' = Some (JStr ''product'')"
        by simp_all
      from Inr \<open>ev_body event = Some productData\<close> None kvs
      have result: "products_create env event t =
          (case put product t of
             None \<Rightarrow> (serverError ''Internal server error'' None, t)
           | Some t' \<Rightarrow> (created (JObj product) None, t'))"
        by (simp add: products_create_def Let_def del: foldl.simps One_nat_def
            flip: product_def)
      with assms obtain t' where stored: "put product t = Some t'"
        by (cases "put product t") (simp_all add: failures)
      from put_Some [OF this i ty] stored result
      have "products_create env event t =
          (created (JObj product) None, t((uuidv4 env, ''product'') \<mapsto> product))"
        by simp
      with i ty show ?thesis by blast
    qed
  qed
qed

lemma products_create_key_in_body:
  assumes "authenticateToken env event = Inr caller" and "ev_body event = Some (JObj kvs)"
    and "''id'' \<in> fst ` set kvs \<or> ''type'' \<in> fst ` set kvs"
  shows "\<exists>message. products_create env event t = (badRequest message None, t)"
proof -
  from assms(3) productSchema_keys [of env kvs]
  obtain message where "validate (productSchema env) (JObj kvs) = Some message"
    by (cases "validate (productSchema env) (JObj kvs)") auto
  with assms(1,2) have "products_create env event t = (badRequest message None, t)"
    by (simp add: products_create_def)
  then show ?thesis by blast
qed

text \<open>
  C9. A product create request answered 201 has stored, under the generated identifier
  and the type \<open>product\<close>, the record that it returns, and the \<open>id\<close> and \<open>type\<close>
  of that record are the generated identifier and \<open>product\<close>. A request of an accepted
  caller whose body has a key \<open>id\<close> or \<open>type\<close> is answered 400 and stores nothing.
\<close>

theorem products_create_keys:
  "(statusCode (fst (products_create env event t)) = 201 \<longrightarrow>
      (\<exists>product.
         snd (products_create env event t) = t((uuidv4 env, ''product'') \<mapsto> product) \<and>
         body (fst (products_create env event t)) =
           JObj [(''success'', JBool True), (''data'', JObj product)] \<and>
         map_of product ''id'' = Some (JStr (uuidv4 env)) \<and>
         map_of product ''type'' = Some (JStr ''product''))) \<and>
   (\<forall>caller kvs.
      authenticateToken env event = Inr caller \<and> ev_body event = Some (JObj kvs) \<and>
      (''id'' \<in> fst ` set kvs \<or> ''type'' \<in> fst ` set kvs) \<longrightarrow>
      (\<exists>message. answers (products_create env event t) 400 message t))"
proof (intro conjI impI allI)
  assume "statusCode (fst (products_create env event t)) = 201"
  from products_create_success [OF this] show "\<exists>product.
         snd (products_create env event t) = t((uuidv4 env, ''product'') \<mapsto> product) \<and>
         body (fst (products_create env event t)) =
           JObj [(''success'', JBool True), (''data'', JObj product)] \<and>
         map_of product ''id'' = Some (JStr (uuidv4 env)) \<and>
         map_of product ''type'' = Some (JStr ''product'')"
    by auto
next
  fix caller kvs
  assume "authenticateToken env event = Inr caller \<and> ev_body event = Some (JObj kvs) \<and>
      (''id'' \<in> fst ` set kvs \<or> ''type'' \<in> fst ` set kvs)"
  then obtain message where "products_create env event t = (badRequest message None, t)"
    using products_create_key_in_body [of env event caller kvs t] by blast
  then show "\<exists>message. answers (products_create env event t) 400 message t"
    by (auto simp: failures)
qed

theorem products_create_keys_witness:
  "statusCode (fst (products_create example_env
      (request ''Bearer token-A'' [] (Some product_payload)) Map.empty)) = 201 \<and>
   map_option (\<lambda>product. (map_of product ''id'', map_of product ''type''))
     (snd (products_create example_env
        (request ''Bearer token-A'' [] (Some product_payload)) Map.empty)
      (''uuid-1'', ''product'')) = Some (Some (JStr ''uuid-1''), Some (JStr ''product'')) \<and>
   statusCode (fst (products_create example_env
      (request ''Bearer token-A'' []
         (Some (JObj [(''id'', JStr ''chosen''), (''name'', JStr ''Pen'')]))) Map.empty)) = 400"
proof -
  have ok: "statusCode (fst (products_create example_env
      (request ''Bearer token-A'' [] (Some product_payload)) Map.empty)) = 201"
    using product_payload_valid
    by (simp add: products_create_def authenticateToken_alice request_simps
        example_env_simps product_payload_def entries_def assign_def put_def Let_def
        key_accepted_def)
  have parsed: "ev_body (request ''Bearer token-A'' []
         (Some (JObj [(''id'', JStr ''chosen''), (''name'', JStr ''Pen'')])))
       = Some (JObj [(''id'', JStr ''chosen''), (''name'', JStr ''Pen'')])"
    by (simp add: request_simps)
  have key: "''id'' \<in> fst ` set [(''id'', JStr ''chosen''), (''name'', JStr ''Pen'')]"
    by simp
  from ok products_create_keys [of example_env
      "request ''Bearer token-A'' [] (Some product_payload)" Map.empty]
  obtain product where "snd (products_create example_env
        (request ''Bearer token-A'' [] (Some product_payload)) Map.empty)
      = [(uuidv4 example_env, ''product'') \<mapsto> product]"
    and "map_of product ''id'' = Some (JStr (uuidv4 example_env))"
    and "map_of product ''type'' = Some (JStr ''product'')"
    by blast
  then have stored: "map_option (\<lambda>product. (map_of product ''id'', map_of product ''type''))
     (snd (products_create example_env
        (request ''Bearer token-A'' [] (Some product_payload)) Map.empty)
      (''uuid-1'', ''product'')) = Some (Some (JStr ''uuid-1''), Some (JStr ''product''))"
    by (simp add: example_env_simps)
  from authenticateToken_alice parsed key
    products_create_keys [of example_env "request ''Bearer token-A'' []
         (Some (JObj [(''id'', JStr ''chosen''), (''name'', JStr ''Pen'')]))" Map.empty]
  have "\<exists>message. answers (products_create example_env (request ''Bearer token-A'' []
         (Some (JObj [(''id'', JStr ''chosen''), (''name'', JStr ''Pen'')]))) Map.empty)
       400 message Map.empty"
    by blast
  then have refused: "statusCode (fst (products_create example_env
      (request ''Bearer token-A'' []
         (Some (JObj [(''id'', JStr ''chosen''), (''name'', JStr ''Pen'')]))) Map.empty)) = 400"
    by (auto simp: answers_def)
  from ok stored refused show ?thesis by blast
qed

subsection \<open>Updating a product\<close>






lemma update_keeps_key:
  assumes "update key clauses vals names t = Some (new, t')" and "t key = Some old"
  shows "t' = t(key \<mapsto> new) \<and> map_of new ''id'' = map_of old ''id'' \<and>
         map_of new ''type'' = map_of old ''type''"
proof -
  from assms obtain sets where "''id'' \<notin> fst ` set sets" and "''type'' \<notin> fst ` set sets"
    and new: "new = foldl assign old sets" and "t' = t(key \<mapsto> new)"
    by (auto simp: update_def Let_def split: option.splits if_splits)
  then have "map_of (rev sets) ''id'' = None" and "map_of (rev sets) ''type'' = None"
    by (simp_all add: map_of_rev_None)
  with new \<open>t' = t(key \<mapsto> new)\<close> show ?thesis
    by (simp add: map_of_foldl_assign map_add_def)
qed

lemma products_update_table:
  "snd (products_update env event t) = t \<or>
   (\<exists>i old new. t (i, ''product'') = Some old \<and>
      snd (products_update env event t) = t((i, ''product'') \<mapsto> new) \<and>
      map_of new ''id'' = map_of old ''id'' \<and> map_of new ''type'' = map_of old ''type'')"
  by (auto simp: products_update_def get_def split: sum.splits option.splits json.splits
      dest: update_keeps_key)

lemma products_update_key_in_body:
  assumes "authenticateToken env event = Inr caller" and "ev_body event = Some (JObj kvs)"
    and "''id'' \<in> fst ` set kvs \<or> ''type'' \<in> fst ` set kvs"
  shows "\<exists>message. products_update env event t = (badRequest message None, t)"
proof -
  from assms(3) updateProductSchema_keys [of env kvs]
  obtain message where "validate (updateProductSchema env) (JObj kvs) = Some message"
    by (cases "validate (updateProductSchema env) (JObj kvs)") auto
  with assms(1,2) have "products_update env event t = (badRequest message None, t)"
    by (simp add: products_update_def)
  then show ?thesis by blast
qed

text \<open>
  C4. Whatever the request, every item of the table has after \<open>update\<close> the \<open>id\<close> and
  \<open>type\<close> fields it had before. A body with a key \<open>id\<close> or \<open>type\<close>, from an
  accepted caller, is answered 400 and the table is unchanged.
\<close>

theorem products_update_keeps_key:
  "(\<forall>k. map_option (\<lambda>item. (map_of item ''id'', map_of item ''type''))
          (snd (products_update env event t) k)
        = map_option (\<lambda>item. (map_of item ''id'', map_of item ''type'')) (t k)) \<and>
   (\<forall>caller kvs.
      authenticateToken env event = Inr caller \<and> ev_body event = Some (JObj kvs) \<and>
      (''id'' \<in> fst ` set kvs \<or> ''type'' \<in> fst ` set kvs) \<longrightarrow>
      (\<exists>message. answers (products_update env event t) 400 message t))"
proof (intro conjI impI allI)
  fix k
  from products_update_table [of env event t]
  show "map_option (\<lambda>item. (map_of item ''id'', map_of item ''type''))
          (snd (products_update env event t) k)
        = map_option (\<lambda>item. (map_of item ''id'', map_of item ''type'')) (t k)"
    by auto
next
  fix caller kvs
  assume "authenticateToken env event = Inr caller \<and> ev_body event = Some (JObj kvs) \<and>
      (''id'' \<in> fst ` set kvs \<or> ''type'' \<in> fst ` set kvs)"
  then obtain message where "products_update env event t = (badRequest message None, t)"
    using products_update_key_in_body [of env event caller kvs t] by blast
  then show "\<exists>message. answers (products_update env event t) 400 message t"
    by (auto simp: failures)
qed

theorem products_update_keeps_key_witness:
  "map_option (\<lambda>item. (map_of item ''id'', map_of item ''type''))
     (snd (products_update example_env
        (request ''Bearer token-A'' ''p1'' (Some (JObj [(''stock'', JNum 5)])))
        products_table) (''p1'', ''product''))
     = Some (Some (JStr ''p1''), Some (JStr ''product'')) \<and>
   statusCode (fst (products_update example_env
      (request ''Bearer token-A'' ''p1'' (Some (JObj [(''id'', JStr ''p2'')])))
      products_table)) = 400"
proof -
  have key: "''id'' \<in> fst ` set [(''id'', JStr ''p2'')]"
    by simp
  from products_update_keeps_key [of example_env
      "request ''Bearer token-A'' ''p1'' (Some (JObj [(''stock'', JNum 5)]))" products_table]
  have kept: "map_option (\<lambda>item. (map_of item ''id'', map_of item ''type''))
     (snd (products_update example_env
        (request ''Bearer token-A'' ''p1'' (Some (JObj [(''stock'', JNum 5)])))
        products_table) (''p1'', ''product''))
     = Some (Some (JStr ''p1''), Some (JStr ''product''))"
    by (simp add: pen_stored)
  from authenticateToken_alice request_simps(1) key
    products_update_keeps_key [of example_env
      "request ''Bearer token-A'' ''p1'' (Some (JObj [(''id'', JStr ''p2'')]))" products_table]
  have "\<exists>message. answers (products_update example_env
      (request ''Bearer token-A'' ''p1'' (Some (JObj [(''id'', JStr ''p2'')])))
      products_table) 400 message products_table"
    by blast
  then have "statusCode (fst (products_update example_env
      (request ''Bearer token-A'' ''p1'' (Some (JObj [(''id'', JStr ''p2'')])))
      products_table)) = 400"
    by (auto simp: answers_def)
  with kept show ?thesis by blast
qed

subsection \<open>Deleting a product\<close>

text \<open>
  C6, as stated: an accepted caller deletes the product with the empty id. No product
  is stored under it, but the table refuses the key, \<open>get\<close> throws, and the answer is
  the internal error 500, not 404.
\<close>

theorem products_delete_refused_key_counterexample:
  "authenticateToken example_env (request ''Bearer token-A'' [] None) = Inr alice \<and>
   products_table ([], ''product'') = None \<and>
   statusCode (fst (products_delete example_env (request ''Bearer token-A'' [] None)
     products_table)) = 500"
  by (simp add: authenticateToken_alice products_delete_def request_simps get_def
      key_accepted_def products_table_def failures)

text \<open>
  C6, amended. A caller whom \<open>authenticateToken\<close> accepts deletes the product with the
  id of the path. If it is stored, the answer is 200 and the table afterwards has no item
  under that key. If it is not stored, as on the same request to the resulting table,
  the table is unchanged and the answer is 404 when the id is a key that the table
  accepts (1 to 2048 bytes), 500 when it is not.
\<close>

theorem products_delete_twice:
  assumes "authenticateToken env event = Inr user"
    and "pathParameters event ''id'' = Some i"
  shows "(\<forall>product. t (i, ''product'') = Some product \<longrightarrow>
            statusCode (fst (products_delete env event t)) = 200 \<and>
            snd (products_delete env event t) = t((i, ''product'') := None) \<and>
            statusCode (fst (products_delete env event (snd (products_delete env event t))))
              = (if key_accepted (i, ''product'') then 404 else 500)) \<and>
         (t (i, ''product'') = None \<longrightarrow>
            statusCode (fst (products_delete env event t)) =
              (if key_accepted (i, ''product'') then 404 else 500) \<and>
            snd (products_delete env event t) = t)"
  using assms
  by (simp add: products_delete_def get_def remove_def failures)

theorem products_delete_twice_witness:
  "statusCode (fst (products_delete example_env (request ''Bearer token-A'' ''p1'' None)
     products_table)) = 200 \<and>
   snd (products_delete example_env (request ''Bearer token-A'' ''p1'' None) products_table)
     (''p1'', ''product'') = None \<and>
   statusCode (fst (products_delete example_env (request ''Bearer token-A'' ''p1'' None)
     (snd (products_delete example_env (request ''Bearer token-A'' ''p1'' None)
        products_table)))) = 404 \<and>
   statusCode (fst (products_delete example_env (request ''Bearer token-A'' ''p9'' None)
     products_table)) = 404"
proof -
  have i1: "pathParameters (request ''Bearer token-A'' ''p1'' None) ''id'' = Some ''p1''"
    and i2: "pathParameters (request ''Bearer token-A'' ''p9'' None) ''id'' = Some ''p9''"
    by (simp_all add: request_def)
  have there: "products_table (''p1'', ''product'') \<noteq> None"
    and absent: "products_table (''p9'', ''product'') = None"
    and keys: "key_accepted (''p1'', ''product'')" "key_accepted (''p9'', ''product'')"
    by (simp_all add: products_table_def key_accepted_def)
  from there obtain pen where pen: "products_table (''p1'', ''product'') = Some pen"
    by blast
  from products_delete_twice [OF authenticateToken_alice i1, of products_table] pen
  have first: "statusCode (fst (products_delete example_env
        (request ''Bearer token-A'' ''p1'' None) products_table)) = 200"
    and gone: "snd (products_delete example_env (request ''Bearer token-A'' ''p1'' None)
        products_table) = products_table((''p1'', ''product'') := None)"
    and second: "statusCode (fst (products_delete example_env
        (request ''Bearer token-A'' ''p1'' None)
        (snd (products_delete example_env (request ''Bearer token-A'' ''p1'' None)
           products_table)))) = (if key_accepted (''p1'', ''product'') then 404 else 500)"
    by blast+
  from products_delete_twice [OF authenticateToken_alice i2, of products_table] absent
  have other: "statusCode (fst (products_delete example_env
        (request ''Bearer token-A'' ''p9'' None) products_table))
      = (if key_accepted (''p9'', ''product'') then 404 else 500)"
    by blast
  from gone have "snd (products_delete example_env (request ''Bearer token-A'' ''p1'' None)
      products_table) (''p1'', ''product'') = None"
    by simp
  with first second other keys show ?thesis by simp
qed

end
